theory Spec2Isabelle
  imports Main
begin

section \<open>The broadcast engine of the StreamFlow backend (DJ mode)\<close>

text \<open>
  A shallow embedding of the broadcast engine of the backend server
  (\<^verbatim>\<open>src/unnamed/part_003\<close>): the module-level variables become one record,
  every event handler becomes a function from the state before to the state after.
  Node runs each handler to completion before the next one starts, and
  \<^verbatim>\<open>pollStreamConfig\<close> awaits only its fetch, so a handler is one atomic step.

  What the model takes for granted: the playlist column holds an array whose entries are
  strings or objects; the properties \<^verbatim>\<open>id\<close>, \<^verbatim>\<open>filename\<close>, \<^verbatim>\<open>url\<close> and
  \<^verbatim>\<open>path\<close> of an entry are strings where they are present; the write of the
  checkpoint file succeeds (the code logs a failure and goes on); the file system does
  not change while one handler runs; the rows of a playlist list their properties in one
  order, so that two playlists print the same JSON text exactly when they agree entry by
  entry in every property. Of the subprocesses the model keeps the handle and
  what the claims speak of, not the media they move.
\<close>

subsection \<open>JavaScript values\<close>

text \<open>
  A property that may be missing is an option; \<open>truthy\<close> is the test JavaScript
  applies to it in a condition: \<^verbatim>\<open>undefined\<close>, \<^verbatim>\<open>null\<close> and the empty
  string are falsy.
\<close>

definition truthy :: "string option \<Rightarrow> bool" where
  "truthy x = (case x of None \<Rightarrow> False | Some s \<Rightarrow> s \<noteq> [])"

text \<open>\<^verbatim>\<open>s.startsWith(p)\<close>\<close>

definition startsWith :: "string \<Rightarrow> string \<Rightarrow> bool" where
  "startsWith s p = (take (length p) s = p)"

text \<open>\<^verbatim>\<open>s.replace(pat, rep)\<close> with a string pattern: the first occurrence only.\<close>

fun replaceFirst :: "string \<Rightarrow> string \<Rightarrow> string \<Rightarrow> string" where
  "replaceFirst pat rep [] = (if pat = [] then rep else [])"
| "replaceFirst pat rep (c # cs) =
     (if startsWith (c # cs) pat then rep @ drop (length pat) (c # cs)
      else c # replaceFirst pat rep cs)"

text \<open>\<^verbatim>\<open>xs.findIndex(P)\<close>: the first index whose element satisfies \<open>P\<close>, or \<open>-1\<close>.\<close>

fun findIndex :: "('a \<Rightarrow> bool) \<Rightarrow> 'a list \<Rightarrow> int" where
  "findIndex P [] = - 1"
| "findIndex P (x # xs) =
     (if P x then 0 else (let r = findIndex P xs in if r = - 1 then - 1 else r + 1))"

text \<open>\<^verbatim>\<open>xs[i]\<close>: \<^verbatim>\<open>undefined\<close> outside the array.\<close>

definition at_index :: "'a list \<Rightarrow> int \<Rightarrow> 'a option" where
  "at_index xs i = (if 0 \<le> i \<and> i < int (length xs) then Some (xs ! nat i) else None)"

subsection \<open>The platform: paths, URLs, the file system\<close>

text \<open>
  The resolver calls Node's \<^verbatim>\<open>path.join\<close>, the \<^verbatim>\<open>URL\<close> constructor and
  \<^verbatim>\<open>fs.existsSync\<close>, and reads \<^verbatim>\<open>__dirname\<close>. They are not code of the
  repository, so the model takes them as parameters; the theorems below hold for every
  platform. \<open>url_pathname u\<close> is \<^verbatim>\<open>new URL(u).pathname\<close>, \<open>None\<close> when the
  constructor throws.
\<close>

record platform =
  dirname :: string
  path_join :: "string list \<Rightarrow> string"
  url_pathname :: "string \<Rightarrow> string option"
  existsSync :: "string \<Rightarrow> bool"

text \<open>\<^verbatim>\<open>const VIDEOS_DIR = path.join(__dirname, 'public', 'videos')\<close>\<close>

definition VIDEOS_DIR :: "platform \<Rightarrow> string" where
  "VIDEOS_DIR pf = path_join pf [dirname pf, ''public'', ''videos'']"

text \<open>
  For the concrete examples: \<^verbatim>\<open>path.join\<close> on POSIX. The arguments that are not
  empty are joined by a slash and the result is normalised: empty and \<^verbatim>\<open>.\<close>
  segments are dropped, \<^verbatim>\<open>..\<close> removes the segment before it (and is kept in front
  of a relative path, which has nothing to remove).
\<close>

fun split_on :: "char \<Rightarrow> string \<Rightarrow> string list" where
  "split_on c [] = [[]]"
| "split_on c (x # xs) =
     (if x = c then [] # split_on c xs
      else (case split_on c xs of [] \<Rightarrow> [[x]] | seg # segs \<Rightarrow> (x # seg) # segs))"

fun join_with :: "string \<Rightarrow> string list \<Rightarrow> string" where
  "join_with sep [] = []"
| "join_with sep [x] = x"
| "join_with sep (x # y # ys) = x @ sep @ join_with sep (y # ys)"

fun norm_segments :: "bool \<Rightarrow> string list \<Rightarrow> string list \<Rightarrow> string list" where
  "norm_segments allowAbove acc [] = rev acc"
| "norm_segments allowAbove acc (seg # rest) =
     (if seg = [] \<or> seg = ''.'' then norm_segments allowAbove acc rest
      else if seg = ''..'' then
        (case acc of
           [] \<Rightarrow> norm_segments allowAbove (if allowAbove then [''..''] else []) rest
         | seg0 # acc' \<Rightarrow>
             if seg0 = ''..'' then norm_segments allowAbove (''..'' # acc) rest
             else norm_segments allowAbove acc' rest)
      else norm_segments allowAbove (seg # acc) rest)"

definition posix_normalize :: "string \<Rightarrow> string" where
  "posix_normalize p =
     (if p = [] then ''.''
      else
        let isAbsolute = (hd p = CHR ''/'');
            trailingSeparator = (last p = CHR ''/'');
            q = join_with ''/'' (norm_segments (\<not> isAbsolute) [] (split_on (CHR ''/'') p))
        in if q = [] then (if isAbsolute then ''/'' else if trailingSeparator then ''./'' else ''.'')
           else (if isAbsolute then ''/'' else []) @ q @ (if trailingSeparator then ''/'' else []))"

definition posix_join :: "string list \<Rightarrow> string" where
  "posix_join parts =
     (let joined = filter (\<lambda>a. a \<noteq> []) parts
      in if joined = [] then ''.'' else posix_normalize (join_with ''/'' joined))"

subsection \<open>Playlist entries and the resolver\<close>

text \<open>
  A playlist entry is a string or an object. The object's properties the engine reads are
  \<^verbatim>\<open>id\<close> (here \<open>vid\<close>), \<^verbatim>\<open>filename\<close>, \<^verbatim>\<open>url\<close>, \<^verbatim>\<open>path\<close> and
  \<^verbatim>\<open>title\<close>. The row's other properties (\<^verbatim>\<open>volume\<close>, \<^verbatim>\<open>duration\<close>,
  \<^verbatim>\<open>thumbnail\<close>, ...) are in \<open>rest\<close>, each name with the JSON text of its value, in
  the order of the row: the engine never reads them, but \<^verbatim>\<open>JSON.stringify\<close> prints them
  when two playlists are compared.
\<close>

record video =
  vid :: "string option"
  filename :: "string option"
  url :: "string option"
  path :: "string option"
  title :: "string option"
  rest :: "(string \<times> string) list"

datatype item = Str string | Obj video

text \<open>\<^verbatim>\<open>v.id\<close> and \<^verbatim>\<open>v.filename\<close>: a string has neither property.\<close>

fun item_id :: "item \<Rightarrow> string option" where
  "item_id (Str s) = None"
| "item_id (Obj v) = vid v"

fun item_filename :: "item \<Rightarrow> string option" where
  "item_filename (Str s) = None"
| "item_filename (Obj v) = filename v"

text \<open>
  \<^verbatim>\<open>function getVideoPath(item)\<close>; \<open>None\<close> is \<^verbatim>\<open>null\<close>. \<open>extractedPath\<close> is
  the variable of that name: the URL itself, or its path name when the URL starts with
  \<^verbatim>\<open>http\<close> (\<open>None\<close> when the constructor throws and the function returns null).
\<close>

definition extractedPath :: "platform \<Rightarrow> string \<Rightarrow> string option" where
  "extractedPath pf u = (if startsWith u ''http'' then url_pathname pf u else Some u)"

definition getVideoPath :: "platform \<Rightarrow> item \<Rightarrow> string option" where
  "getVideoPath pf item =
     (case item of
        Str s \<Rightarrow> Some s
      | Obj v \<Rightarrow>
          if truthy (filename v) then Some (path_join pf [VIDEOS_DIR pf, the (filename v)])
          else if truthy (url v) then
            (case extractedPath pf (the (url v)) of
               None \<Rightarrow> None
             | Some p \<Rightarrow>
                 if startsWith p ''/videos/'' then
                   Some (path_join pf [VIDEOS_DIR pf, replaceFirst ''/videos/'' [] p])
                 else if startsWith p ''/'' then
                   Some (path_join pf [dirname pf, ''public'', p])
                 else Some p)
          else if truthy (path v) then Some (the (path v))
          else None)"

text \<open>The test \<^verbatim>\<open>filePath && fs.existsSync(filePath)\<close> of the validation and of the cue.\<close>

definition playable :: "platform \<Rightarrow> item \<Rightarrow> bool" where
  "playable pf item = (truthy (getVideoPath pf item) \<and> existsSync pf (the (getVideoPath pf item)))"

text \<open>\<^verbatim>\<open>function cleanPlaylist(playlist)\<close>: the valid entries and the number removed.\<close>

definition cleanPlaylist :: "platform \<Rightarrow> item list \<Rightarrow> item list \<times> bool \<times> nat" where
  "cleanPlaylist pf playlist =
     (let validPlaylist = filter (playable pf) playlist;
          removedCount = length (filter (\<lambda>item. \<not> playable pf item) playlist)
      in (validPlaylist, removedCount > 0, removedCount))"

subsection \<open>The polled configuration and the engine state\<close>

text \<open>
  One row of \<^verbatim>\<open>stream_config\<close>, with the columns the engine reads. A column may be
  null. Two playlists are compared through \<^verbatim>\<open>JSON.stringify\<close>; the model compares
  the lists of entries, every entry with all its properties (those the engine reads and
  \<open>rest\<close>), so a change in any property of a row is a change of the playlist.
\<close>

record config =
  is_active :: bool
  rtmp_url :: "string option"
  stream_key :: "string option"
  bitrate :: "int option"
  audio_overlay_enabled :: "bool option"
  audio_volume :: "int option"
  audio_file :: "string option"
  playlist :: "item list"

text \<open>The content of \<^verbatim>\<open>stream_state.json\<close>, the resume checkpoint.\<close>

record saved_state =
  lastPlayedVideoId :: "string option"
  timestamp :: nat

text \<open>
  The two subprocesses. Of the Master's arguments the model keeps the output URL and the
  video bitrate; of the Feeder's, the input file. \<open>killed\<close> is set by \<^verbatim>\<open>kill()\<close>.
\<close>

record master_proc =
  outputUrl :: string
  vBitrate :: int

record feeder_proc =
  feederFile :: string
  killed :: bool

text \<open>
  The module-level variables of the engine, the checkpoint file, and the delays of the
  pending \<^verbatim>\<open>setTimeout(playNextVideo, d)\<close> calls.
\<close>

record engine =
  masterFfmpeg :: "master_proc option"
  masterStdin :: bool
  currentFeederProcess :: "feeder_proc option"
  isStreaming :: bool
  lastConfig :: "config option"
  currentPlaylist :: "item list"
  currentIndex :: int
  skipToTarget :: bool
  stateFile :: "saved_state option"
  timers :: "nat list"

text \<open>The state of a process that has just started.\<close>

definition initial_engine :: "saved_state option \<Rightarrow> engine" where
  "initial_engine file =
     \<lparr>masterFfmpeg = None, masterStdin = False, currentFeederProcess = None,
      isStreaming = False, lastConfig = None, currentPlaylist = [], currentIndex = 0,
      skipToTarget = False, stateFile = file, timers = []\<rparr>"

subsection \<open>The handlers\<close>

text \<open>The answer of \<^verbatim>\<open>/control/skip\<close>: the new index, or a status and an error.\<close>

datatype response = Json_success int | Json_error nat string

text \<open>\<^verbatim>\<open>app.post('/control/skip', ...)\<close>; the argument is \<^verbatim>\<open>req.body.direction\<close>.\<close>

definition control_skip :: "string option \<Rightarrow> engine \<Rightarrow> response \<times> engine" where
  "control_skip direction s =
     (if \<not> isStreaming s then (Json_error 400 ''Stream not active'', s)
      else if \<not> truthy direction \<or> (direction \<noteq> Some ''next'' \<and> direction \<noteq> Some ''previous'')
      then (Json_error 400 ''Invalid direction'', s)
      else
        let s1 = (if direction = Some ''next''
                  then (let a = s\<lparr>currentIndex := currentIndex s + 1\<rparr>
                        in if currentIndex a \<ge> int (length (currentPlaylist a))
                           then a\<lparr>currentIndex := 0\<rparr> else a)
                  else (let a = s\<lparr>currentIndex := currentIndex s - 1\<rparr>
                        in if currentIndex a < 0
                           then a\<lparr>currentIndex := int (length (currentPlaylist a)) - 1\<rparr> else a));
            s2 = s1\<lparr>skipToTarget := True\<rparr>;
            s3 = (case currentFeederProcess s2 of
                    None \<Rightarrow> s2
                  | Some f \<Rightarrow> s2\<lparr>currentFeederProcess := Some (f\<lparr>killed := True\<rparr>)\<rparr>)
        in (Json_success (currentIndex s3), s3))"

text \<open>
  \<^verbatim>\<open>function playNextVideo()\<close> up to the spawn of the Feeder. The call for a missing
  file is a recursion that need not end (no file of the playlist may exist), so the
  function is partial: \<open>None\<close> is the run that does not return (in Node the recursion
  ends in a stack overflow). \<open>now\<close> is \<^verbatim>\<open>Date.now()\<close>.
\<close>

partial_function (option) playNextVideo :: "platform \<Rightarrow> nat \<Rightarrow> engine \<Rightarrow> engine option" where
  "playNextVideo pf now s =
     (if \<not> isStreaming s \<or> \<not> masterStdin s then Some s
      else if length (currentPlaylist s) = 0 then Some (s\<lparr>timers := timers s @ [2000]\<rparr>)
      else
        let s1 = (if currentIndex s < 0 then s\<lparr>currentIndex := 0\<rparr> else s);
            s2 = (if currentIndex s1 \<ge> int (length (currentPlaylist s1))
                  then s1\<lparr>currentIndex := 0\<rparr> else s1);
            video = currentPlaylist s2 ! nat (currentIndex s2)
        in if \<not> playable pf video
           then playNextVideo pf now (s2\<lparr>currentIndex := currentIndex s2 + 1\<rparr>)
           else Some (s2\<lparr>stateFile := Some \<lparr>lastPlayedVideoId = item_id video, timestamp = now\<rparr>,
                         currentFeederProcess :=
                           Some \<lparr>feederFile = the (getVideoPath pf video), killed = False\<rparr>\<rparr>))"

declare playNextVideo.simps [code]

text \<open>The Feeder's \<^verbatim>\<open>close\<close> handler; \<open>code\<close> is \<open>None\<close> for a Feeder ended by a signal.\<close>

definition feeder_close :: "platform \<Rightarrow> nat \<Rightarrow> int option \<Rightarrow> engine \<Rightarrow> engine option" where
  "feeder_close pf now code s =
     (if skipToTarget s then playNextVideo pf now (s\<lparr>skipToTarget := False\<rparr>)
      else if code = Some 0 then playNextVideo pf now (s\<lparr>currentIndex := currentIndex s + 1\<rparr>)
      else if code \<noteq> None
      then Some (s\<lparr>currentIndex := currentIndex s + 1, timers := timers s @ [1000]\<rparr>)
      else Some s)"

text \<open>The Feeder's \<^verbatim>\<open>error\<close> handler.\<close>

definition feeder_error :: "engine \<Rightarrow> engine" where
  "feeder_error s =
     (let s1 = (case currentFeederProcess s of
                  None \<Rightarrow> s
                | Some f \<Rightarrow> s\<lparr>currentFeederProcess := Some (f\<lparr>killed := True\<rparr>)\<rparr>)
      in s1\<lparr>currentIndex := currentIndex s1 + 1, timers := timers s1 @ [1000]\<rparr>)"

text \<open>A pending \<^verbatim>\<open>setTimeout(playNextVideo, d)\<close> fires.\<close>

definition timer_fire :: "platform \<Rightarrow> nat \<Rightarrow> nat \<Rightarrow> engine \<Rightarrow> engine option" where
  "timer_fire pf now d s =
     (if d \<in> set (timers s) then playNextVideo pf now (s\<lparr>timers := remove1 d (timers s)\<rparr>)
      else Some s)"

text \<open>
  \<^verbatim>\<open>function startMasterStream(config)\<close>. \<open>master_of\<close> is the process it spawns:
  the output URL is \<^verbatim>\<open>`${rtmp_url}/${stream_key}`\<close>, the bitrate is
  \<^verbatim>\<open>bitrate || 8000\<close>.
\<close>

definition master_of :: "config \<Rightarrow> master_proc" where
  "master_of cfg =
     \<lparr>outputUrl = the (rtmp_url cfg) @ ''/'' @ the (stream_key cfg),
      vBitrate = (case bitrate cfg of None \<Rightarrow> 8000 | Some b \<Rightarrow> if b = 0 then 8000 else b)\<rparr>"

definition startMasterStream :: "platform \<Rightarrow> nat \<Rightarrow> config \<Rightarrow> engine \<Rightarrow> engine option" where
  "startMasterStream pf now cfg s =
     (if masterFfmpeg s \<noteq> None then Some s
      else if \<not> truthy (rtmp_url cfg) \<or> \<not> truthy (stream_key cfg) then Some s
      else
        playNextVideo pf now
          (s\<lparr>masterFfmpeg := Some (master_of cfg), masterStdin := True, isStreaming := True\<rparr>))"

text \<open>The Master's \<^verbatim>\<open>close\<close> handler.\<close>

definition master_close :: "engine \<Rightarrow> engine" where
  "master_close s =
     s\<lparr>masterFfmpeg := None, masterStdin := False, isStreaming := False,
       currentFeederProcess := None\<rparr>"

text \<open>\<^verbatim>\<open>function stopStream()\<close>\<close>

definition stopStream :: "engine \<Rightarrow> engine" where
  "stopStream s =
     (let s1 = (if currentFeederProcess s \<noteq> None then s\<lparr>currentFeederProcess := None\<rparr> else s);
          s2 = (if masterFfmpeg s1 \<noteq> None then s1\<lparr>masterFfmpeg := None, masterStdin := False\<rparr>
                else s1)
      in s2\<lparr>isStreaming := False\<rparr>)"

text \<open>
  The test of the pointer correction:
  \<^verbatim>\<open>(v.id && v.id === oldVideo.id) || (v.filename && v.filename === oldVideo.filename)\<close>
\<close>

definition same_video :: "item \<Rightarrow> item \<Rightarrow> bool" where
  "same_video v oldVideo =
     ((truthy (item_id v) \<and> item_id v = item_id oldVideo) \<or>
      (truthy (item_filename v) \<and> item_filename v = item_filename oldVideo))"

text \<open>\<^verbatim>\<open>if (oldVideo)\<close>: an entry that is the empty string is falsy.\<close>

definition item_truthy :: "item \<Rightarrow> bool" where
  "item_truthy v = (v \<noteq> Str [])"

text \<open>The comparison of the critical columns in \<^verbatim>\<open>pollStreamConfig\<close>.\<close>

definition criticalChanged :: "config \<Rightarrow> config \<Rightarrow> bool" where
  "criticalChanged cfg lastCfg =
     (stream_key cfg \<noteq> stream_key lastCfg \<or>
      rtmp_url cfg \<noteq> rtmp_url lastCfg \<or>
      audio_overlay_enabled cfg \<noteq> audio_overlay_enabled lastCfg \<or>
      audio_volume cfg \<noteq> audio_volume lastCfg \<or>
      audio_file cfg \<noteq> audio_file lastCfg)"

text \<open>
  Part 2 of \<^verbatim>\<open>pollStreamConfig\<close>, the updates at run time. With no last
  configuration the read of \<^verbatim>\<open>lastConfig.stream_key\<close> throws, the handler's
  \<^verbatim>\<open>catch\<close> logs it, and nothing has changed.
\<close>

definition runtime_updates :: "platform \<Rightarrow> config \<Rightarrow> engine \<Rightarrow> engine" where
  "runtime_updates pf cfg s =
     (if isStreaming s \<and> is_active cfg then
        (case lastConfig s of
           None \<Rightarrow> s
         | Some lastCfg \<Rightarrow>
             if criticalChanged cfg lastCfg then stopStream s
             else if playlist lastCfg \<noteq> playlist cfg then
               (let oldVideo = at_index (currentPlaylist s) (currentIndex s);
                    s1 = s\<lparr>currentPlaylist := fst (cleanPlaylist pf (playlist cfg))\<rparr>;
                    s2 = (case oldVideo of
                            None \<Rightarrow> s1
                          | Some old \<Rightarrow>
                              if item_truthy old then
                                (let newIndex = findIndex (\<lambda>v. same_video v old) (currentPlaylist s1)
                                 in if newIndex \<noteq> - 1 then s1\<lparr>currentIndex := newIndex\<rparr>
                                    else if currentIndex s1 \<ge> int (length (currentPlaylist s1))
                                    then s1\<lparr>currentIndex := 0\<rparr> else s1)
                              else s1)
                in s2\<lparr>lastConfig := Some cfg\<rparr>)
             else s)
      else s)"

text \<open>
  Part 1 of \<^verbatim>\<open>pollStreamConfig\<close> when the stream is to start: the playlist is
  validated and adopted, the index is recovered from the checkpoint.
\<close>

definition adopt_playlist :: "platform \<Rightarrow> config \<Rightarrow> engine \<Rightarrow> config \<times> engine" where
  "adopt_playlist pf config0 s =
     (let (validPlaylist, hasChanges, removedCount) = cleanPlaylist pf (playlist config0);
          cfg = (if hasChanges then config0\<lparr>playlist := validPlaylist\<rparr> else config0);
          s1 = s\<lparr>currentPlaylist := playlist cfg, currentIndex := 0\<rparr>;
          s2 = (case stateFile s1 of
                  None \<Rightarrow> s1
                | Some savedState \<Rightarrow>
                    if truthy (lastPlayedVideoId savedState) then
                      (let foundIndex = findIndex (\<lambda>v. item_id v = lastPlayedVideoId savedState)
                                          (currentPlaylist s1)
                       in if foundIndex \<noteq> - 1
                          then s1\<lparr>currentIndex :=
                                    (foundIndex + 1) mod int (length (currentPlaylist s1))\<rparr>
                          else s1)
                    else s1)
      in (cfg, s2))"

text \<open>
  \<^verbatim>\<open>async function pollStreamConfig()\<close> after the fetch; \<open>fetched\<close> is what
  \<^verbatim>\<open>getStreamConfig\<close> returned, \<open>None\<close> for a failed fetch.
\<close>

definition pollStreamConfig :: "platform \<Rightarrow> nat \<Rightarrow> config option \<Rightarrow> engine \<Rightarrow> engine option" where
  "pollStreamConfig pf now fetched s =
     (case fetched of
        None \<Rightarrow> Some s
      | Some config0 \<Rightarrow>
          if is_active config0 \<and> \<not> isStreaming s then
            (let (cfg, s2) = adopt_playlist pf config0 s
             in case startMasterStream pf now cfg s2 of
                  None \<Rightarrow> None
                | Some s3 \<Rightarrow> Some (runtime_updates pf cfg (s3\<lparr>lastConfig := Some cfg\<rparr>)))
          else if \<not> is_active config0 \<and> isStreaming s then Some (stopStream s)
          else Some (runtime_updates pf config0 s))"

text \<open>A run of Feeder exits with code 0, one time stamp for each.\<close>

fun feeder_exits :: "platform \<Rightarrow> nat list \<Rightarrow> engine \<Rightarrow> engine option" where
  "feeder_exits pf [] s = Some s"
| "feeder_exits pf (now # nows) s =
     (case feeder_close pf now (Some 0) s of
        None \<Rightarrow> None
      | Some s' \<Rightarrow> feeder_exits pf nows s')"

subsection \<open>Notions for the statements\<close>

text \<open>The index the start recovers from the checkpoint.\<close>

definition resume_index :: "saved_state option \<Rightarrow> item list \<Rightarrow> int" where
  "resume_index file pl =
     (case file of
        None \<Rightarrow> 0
      | Some savedState \<Rightarrow>
          if truthy (lastPlayedVideoId savedState) \<and>
             findIndex (\<lambda>v. item_id v = lastPlayedVideoId savedState) pl \<noteq> - 1
          then (findIndex (\<lambda>v. item_id v = lastPlayedVideoId savedState) pl + 1) mod int (length pl)
          else 0)"

text \<open>The index after the pointer correction of a hot reload.\<close>

definition pointer_correction :: "item list \<Rightarrow> int \<Rightarrow> item list \<Rightarrow> int" where
  "pointer_correction oldPlaylist i newPlaylist =
     (case at_index oldPlaylist i of
        None \<Rightarrow> i
      | Some old \<Rightarrow>
          if item_truthy old then
            (if findIndex (\<lambda>v. same_video v old) newPlaylist \<noteq> - 1
             then findIndex (\<lambda>v. same_video v old) newPlaylist
             else if i \<ge> int (length newPlaylist) then 0 else i)
          else i)"

text \<open>The entry the index points at, \<^verbatim>\<open>currentPlaylist[currentIndex]\<close>.\<close>

definition current_entry :: "engine \<Rightarrow> item option" where
  "current_entry s = at_index (currentPlaylist s) (currentIndex s)"

text \<open>The file the Feeder is playing.\<close>

definition playing_file :: "engine \<Rightarrow> string option" where
  "playing_file s = map_option feederFile (currentFeederProcess s)"

text \<open>
  The events the engine reacts to, each with the values it reads from outside (the time,
  the fetched configuration, the request's direction, the exit code), and a run of them.
\<close>

datatype event =
    Poll nat "config option"
  | Skip "string option"
  | FeederClose nat "int option"
  | FeederError
  | MasterClose
  | Timer nat nat

fun step :: "platform \<Rightarrow> event \<Rightarrow> engine \<Rightarrow> engine option" where
  "step pf (Poll now fetched) s = pollStreamConfig pf now fetched s"
| "step pf (Skip direction) s = Some (snd (control_skip direction s))"
| "step pf (FeederClose now code) s = feeder_close pf now code s"
| "step pf FeederError s = Some (feeder_error s)"
| "step pf MasterClose s = Some (master_close s)"
| "step pf (Timer now d) s = timer_fire pf now d s"

fun run :: "platform \<Rightarrow> event list \<Rightarrow> engine \<Rightarrow> engine option" where
  "run pf [] s = Some s"
| "run pf (e # es) s = (case step pf e s of None \<Rightarrow> None | Some s' \<Rightarrow> run pf es s')"

text \<open>The index and the length of the playlist, side by side.\<close>

definition index_and_length :: "engine \<Rightarrow> int \<times> nat" where
  "index_and_length s = (currentIndex s, length (currentPlaylist s))"

text \<open>
  The state after the cue of the entry at the current index: the checkpoint is written
  and the Feeder is spawned (the end of \<^verbatim>\<open>playNextVideo\<close>).
\<close>

definition cue :: "platform \<Rightarrow> nat \<Rightarrow> engine \<Rightarrow> engine" where
  "cue pf now s =
     (let video = currentPlaylist s ! nat (currentIndex s)
      in s\<lparr>stateFile := Some \<lparr>lastPlayedVideoId = item_id video, timestamp = now\<rparr>,
           currentFeederProcess :=
             Some \<lparr>feederFile = the (getVideoPath pf video), killed = False\<rparr>\<rparr>)"

subsection \<open>A concrete installation for the examples\<close>

text \<open>
  The server lives in \<^verbatim>\<open>/srv/streamflow\<close> on a POSIX system; the files of three
  videos are on disk. The URL table holds the one absolute URL of the examples with its path name.
\<close>

definition demo_platform :: platform where
  "demo_platform =
     \<lparr>dirname = ''/srv/streamflow'',
      path_join = posix_join,
      url_pathname =
        (\<lambda>u. if u = ''http://media.example.org/videos/a.mp4'' then Some ''/videos/a.mp4''
             else None),
      existsSync =
        (\<lambda>p. p \<in> set [''/srv/streamflow/public/videos/a.mp4'',
                        ''/srv/streamflow/public/videos/b.mp4'',
                        ''/srv/streamflow/public/videos/c.mp4''])\<rparr>"

definition video_A :: item where
  "video_A = Obj \<lparr>vid = Some ''a'', filename = Some ''a.mp4'', url = None, path = None,
                  title = Some ''A'', rest = []\<rparr>"

definition video_B :: item where
  "video_B = Obj \<lparr>vid = Some ''b'', filename = Some ''b.mp4'', url = None, path = None,
                  title = Some ''B'', rest = []\<rparr>"

definition video_C :: item where
  "video_C = Obj \<lparr>vid = Some ''c'', filename = Some ''c.mp4'', url = None, path = None,
                  title = Some ''C'', rest = []\<rparr>"

text \<open>The same installation earlier, when the file of the fourth video was still there.\<close>

definition demo_platform_before :: platform where
  "demo_platform_before =
     \<lparr>dirname = ''/srv/streamflow'',
      path_join = posix_join,
      url_pathname =
        (\<lambda>u. if u = ''http://media.example.org/videos/a.mp4'' then Some ''/videos/a.mp4''
             else None),
      existsSync =
        (\<lambda>p. p \<in> set [''/srv/streamflow/public/videos/a.mp4'',
                        ''/srv/streamflow/public/videos/b.mp4'',
                        ''/srv/streamflow/public/videos/c.mp4'',
                        ''/srv/streamflow/public/videos/d.mp4''])\<rparr>"

text \<open>An entry whose file is not on disk.\<close>

definition video_D :: item where
  "video_D = Obj \<lparr>vid = Some ''d'', filename = Some ''d.mp4'', url = None, path = None,
                  title = Some ''D'', rest = []\<rparr>"

definition demo_config :: "item list \<Rightarrow> config" where
  "demo_config pl =
     \<lparr>is_active = True, rtmp_url = Some ''rtmp://a.rtmp.youtube.com/live2'',
      stream_key = Some ''abcd-1234'', bitrate = Some 8000,
      audio_overlay_enabled = Some True, audio_volume = Some 35,
      audio_file = Some ''rain.mp3'', playlist = pl\<rparr>"

text \<open>
  The engine streaming the playlist \<open>pl\<close> of \<open>demo_config\<close>, on entry \<open>i\<close>; for
  \<open>i = 0\<close> this is the state after the first poll at time 0 (\<open>demo_reached\<close> below).
\<close>

definition demo_streaming :: "item list \<Rightarrow> int \<Rightarrow> engine" where
  "demo_streaming pl i =
     \<lparr>masterFfmpeg = Some \<lparr>outputUrl = ''rtmp://a.rtmp.youtube.com/live2/abcd-1234'',
                            vBitrate = 8000\<rparr>,
      masterStdin = True,
      currentFeederProcess =
        Some \<lparr>feederFile = the (getVideoPath demo_platform (pl ! nat i)), killed = False\<rparr>,
      isStreaming = True, lastConfig = Some (demo_config pl), currentPlaylist = pl,
      currentIndex = i, skipToTarget = False,
      stateFile = Some \<lparr>lastPlayedVideoId = item_id (pl ! nat i), timestamp = 0\<rparr>,
      timers = []\<rparr>"

text \<open>
  The rule for the \<^verbatim>\<open>url\<close> form in the words of the specification, for the
  comparison with \<open>getVideoPath\<close>: the path is parsed, the \<^verbatim>\<open>/videos/\<close> prefix
  is stripped, the rest is joined to the video directory.
\<close>

definition url_rule_as_stated :: "platform \<Rightarrow> string \<Rightarrow> string option" where
  "url_rule_as_stated pf u =
     (case extractedPath pf u of
        None \<Rightarrow> None
      | Some p \<Rightarrow>
          Some (path_join pf [VIDEOS_DIR pf, if startsWith p ''/videos/'' then drop 8 p else p]))"

section \<open>Properties\<close>

subsection \<open>Auxiliary facts\<close>

lemma next_index_mod:
  fixes i L :: int
  assumes "0 \<le> i" "i < L"
  shows "(i + 1) mod L = (if L \<le> i + 1 then 0 else i + 1)"
proof (cases "L \<le> i + 1")
  case True
  with assms have "i + 1 = L" by simp
  with True show ?thesis by simp
next
  case False
  with assms show ?thesis by simp
qed

lemma previous_index_mod:
  fixes i L :: int
  assumes "0 \<le> i" "i < L"
  shows "(i - 1 + L) mod L = (if i - 1 < 0 then L - 1 else i - 1)"
proof (cases "i = 0")
  case True
  have "(L - 1) mod L = L - 1"
    using assms True by (intro mod_pos_pos_trivial) simp_all
  with True show ?thesis by simp
next
  case False
  have "(i - 1 + L) mod L = (i - 1) mod L" by simp
  also have "\<dots> = i - 1"
    using assms False by (intro mod_pos_pos_trivial) simp_all
  finally show ?thesis using assms False by simp
qed

lemma findIndex_lower: "- 1 \<le> findIndex P xs"
  by (induction xs) (auto simp: Let_def)

lemma findIndex_none: "(findIndex P xs = - 1) = (\<forall>x \<in> set xs. \<not> P x)"
proof (induction xs)
  case Nil
  show ?case by simp
next
  case (Cons x xs)
  have "- 1 \<le> findIndex P xs" by (rule findIndex_lower)
  with Cons show ?case by (auto simp: Let_def)
qed

lemma findIndex_first:
  "i < length xs \<Longrightarrow> P (xs ! i) \<Longrightarrow> \<forall>j < i. \<not> P (xs ! j) \<Longrightarrow> findIndex P xs = int i"
proof (induction xs arbitrary: i)
  case Nil
  then show ?case by simp
next
  case (Cons x xs)
  show ?case
  proof (cases i)
    case 0
    with Cons.prems show ?thesis by simp
  next
    case (Suc k)
    with Cons.prems have k: "k < length xs" "P (xs ! k)" by simp_all
    from Cons.prems Suc have nx: "\<not> P x" by auto
    have "\<forall>j < k. \<not> P (xs ! j)"
    proof (intro allI impI)
      fix j assume "j < k"
      then have "Suc j < i" using Suc by simp
      with Cons.prems(3) have "\<not> P ((x # xs) ! Suc j)" by blast
      then show "\<not> P (xs ! j)" by simp
    qed
    with Cons.IH k have "findIndex P xs = int k" by blast
    with nx Suc show ?thesis by (simp add: Let_def)
  qed
qed

lemma findIndex_found:
  assumes "findIndex P xs \<noteq> - 1"
  shows "0 \<le> findIndex P xs \<and> findIndex P xs < int (length xs) \<and>
         P (xs ! nat (findIndex P xs)) \<and> (\<forall>j < nat (findIndex P xs). \<not> P (xs ! j))"
  using assms
proof (induction xs)
  case Nil
  then show ?case by simp
next
  case (Cons x xs)
  show ?case
  proof (cases "P x")
    case True
    then show ?thesis by simp
  next
    case False
    with Cons.prems have r: "findIndex P xs \<noteq> - 1" by (auto simp: Let_def)
    with False have eq: "findIndex P (x # xs) = findIndex P xs + 1" by (simp add: Let_def)
    from Cons.IH [OF r] have ih: "0 \<le> findIndex P xs" "findIndex P xs < int (length xs)"
      "P (xs ! nat (findIndex P xs))" "\<forall>j < nat (findIndex P xs). \<not> P (xs ! j)" by simp_all
    have n: "nat (findIndex P xs + 1) = Suc (nat (findIndex P xs))" using ih(1) by simp
    have "\<forall>j < Suc (nat (findIndex P xs)). \<not> P ((x # xs) ! j)"
    proof (intro allI impI)
      fix j assume j: "j < Suc (nat (findIndex P xs))"
      show "\<not> P ((x # xs) ! j)"
      proof (cases j)
        case 0
        with False show ?thesis by simp
      next
        case (Suc k)
        with j ih(4) show ?thesis by simp
      qed
    qed
    with ih eq n show ?thesis by simp
  qed
qed


lemma playNextVideo_idle:
  "\<not> isStreaming s \<or> \<not> masterStdin s \<Longrightarrow> playNextVideo pf now s = Some s"
  by (subst playNextVideo.simps) auto

lemma playNextVideo_empty:
  "isStreaming s \<Longrightarrow> masterStdin s \<Longrightarrow> currentPlaylist s = [] \<Longrightarrow>
   playNextVideo pf now s = Some (s\<lparr>timers := timers s @ [2000]\<rparr>)"
  by (subst playNextVideo.simps) simp

lemma playNextVideo_play:
  assumes "isStreaming s" "masterStdin s"
    and "0 \<le> currentIndex s" "currentIndex s < int (length (currentPlaylist s))"
    and "playable pf (currentPlaylist s ! nat (currentIndex s))"
  shows "playNextVideo pf now s = Some (cue pf now s)"
  using assms by (subst playNextVideo.simps) (auto simp: cue_def Let_def)

lemma playNextVideo_missing:
  assumes "isStreaming s" "masterStdin s"
    and "0 \<le> currentIndex s" "currentIndex s < int (length (currentPlaylist s))"
    and "\<not> playable pf (currentPlaylist s ! nat (currentIndex s))"
  shows "playNextVideo pf now s = playNextVideo pf now (s\<lparr>currentIndex := currentIndex s + 1\<rparr>)"
  using assms by (subst playNextVideo.simps) (auto simp: Let_def)

lemma playNextVideo_unfold_zero:
  assumes "isStreaming s" "masterStdin s" "currentPlaylist s \<noteq> []"
    and "currentIndex s < 0 \<or> int (length (currentPlaylist s)) \<le> currentIndex s \<or> currentIndex s = 0"
  shows "playNextVideo pf now s =
           (if \<not> playable pf (currentPlaylist s ! 0)
            then playNextVideo pf now (s\<lparr>currentIndex := 1\<rparr>)
            else Some (cue pf now (s\<lparr>currentIndex := 0\<rparr>)))"
  using assms by (subst playNextVideo.simps) (auto simp: cue_def Let_def)

lemma playNextVideo_clamp:
  assumes "isStreaming s" "masterStdin s" "currentPlaylist s \<noteq> []"
    and "currentIndex s < 0 \<or> int (length (currentPlaylist s)) \<le> currentIndex s"
  shows "playNextVideo pf now s = playNextVideo pf now (s\<lparr>currentIndex := 0\<rparr>)"
proof -
  let ?z = "s\<lparr>currentIndex := 0\<rparr>"
  have d: "currentIndex s < 0 \<or> int (length (currentPlaylist s)) \<le> currentIndex s \<or> currentIndex s = 0"
    using assms(4) by blast
  have "isStreaming ?z" "masterStdin ?z" "currentPlaylist ?z \<noteq> []"
    "currentIndex ?z < 0 \<or> int (length (currentPlaylist ?z)) \<le> currentIndex ?z \<or> currentIndex ?z = 0"
    using assms by simp_all
  from playNextVideo_unfold_zero [OF this, of pf now]
  have "playNextVideo pf now ?z =
           (if \<not> playable pf (currentPlaylist s ! 0)
            then playNextVideo pf now (s\<lparr>currentIndex := 1\<rparr>)
            else Some (cue pf now ?z))"
    by simp
  with playNextVideo_unfold_zero [OF assms(1,2,3) d, of pf now] show ?thesis by simp
qed

lemma playNextVideo_result:
  assumes "playNextVideo pf now s = Some y"
  shows "isStreaming s \<and> masterStdin s \<and> currentPlaylist s \<noteq> [] \<longrightarrow>
         (\<exists>k. 0 \<le> k \<and> k < int (length (currentPlaylist s)) \<and>
              playable pf (currentPlaylist s ! nat k) \<and>
              y = cue pf now (s\<lparr>currentIndex := k\<rparr>))"
  using assms
proof (induct rule: playNextVideo.raw_induct [rotated 1, consumes 1, case_names step])
  case (step f pf now s y)
  note 1 = step
  show ?case
  proof (intro impI)
    assume st: "isStreaming s \<and> masterStdin s \<and> currentPlaylist s \<noteq> []"
    define c where "c = (if currentIndex s < 0 \<or> int (length (currentPlaylist s)) \<le> currentIndex s
                         then 0 else currentIndex s)"
    have c: "0 \<le> c" "c < int (length (currentPlaylist s))"
      using st by (auto simp: c_def)
    show "\<exists>k. 0 \<le> k \<and> k < int (length (currentPlaylist s)) \<and>
              playable pf (currentPlaylist s ! nat k) \<and> y = cue pf now (s\<lparr>currentIndex := k\<rparr>)"
    proof (cases "playable pf (currentPlaylist s ! nat c)")
      case True
      with 1(2) st have "y = cue pf now (s\<lparr>currentIndex := c\<rparr>)"
        by (auto simp: c_def cue_def Let_def split: if_splits)
      with True c show ?thesis by blast
    next
      case False
      with 1(2) st have "f pf now (s\<lparr>currentIndex := c + 1\<rparr>) = Some y"
        by (auto simp: c_def Let_def split: if_splits)
      from 1(1) [OF this] st obtain k where
        "0 \<le> k" "k < int (length (currentPlaylist s))" "playable pf (currentPlaylist s ! nat k)"
        "y = cue pf now (s\<lparr>currentIndex := k\<rparr>)"
        by auto
      then show ?thesis by auto
    qed
  qed
qed


lemma cue_fields [simp]:
  "currentIndex (cue pf now s) = currentIndex s"
  "currentPlaylist (cue pf now s) = currentPlaylist s"
  "isStreaming (cue pf now s) = isStreaming s"
  "masterStdin (cue pf now s) = masterStdin s"
  "masterFfmpeg (cue pf now s) = masterFfmpeg s"
  "skipToTarget (cue pf now s) = skipToTarget s"
  "lastConfig (cue pf now s) = lastConfig s"
  "timers (cue pf now s) = timers s"
  "currentFeederProcess (cue pf now s) =
     Some \<lparr>feederFile = the (getVideoPath pf (currentPlaylist s ! nat (currentIndex s))),
           killed = False\<rparr>"
  "stateFile (cue pf now s) =
     Some \<lparr>lastPlayedVideoId = item_id (currentPlaylist s ! nat (currentIndex s)),
           timestamp = now\<rparr>"
  by (simp_all add: cue_def Let_def)

lemma playNextVideo_wrapped:
  assumes "isStreaming s" "masterStdin s"
    and "0 \<le> currentIndex s" "currentIndex s \<le> int (length (currentPlaylist s))"
    and "currentPlaylist s \<noteq> []"
    and "playable pf (currentPlaylist s !
           nat (currentIndex s mod int (length (currentPlaylist s))))"
  shows "playNextVideo pf now s =
         Some (cue pf now (s\<lparr>currentIndex := currentIndex s mod int (length (currentPlaylist s))\<rparr>))"
proof (cases "currentIndex s < int (length (currentPlaylist s))")
  case True
  then have m: "currentIndex s mod int (length (currentPlaylist s)) = currentIndex s"
    using assms(3) by simp
  have "s\<lparr>currentIndex := currentIndex s\<rparr> = s" by simp
  with playNextVideo_play [OF assms(1,2,3) True, of pf now] assms(6) m show ?thesis by simp
next
  case False
  with assms(4) have e: "currentIndex s = int (length (currentPlaylist s))" by simp
  then have m: "currentIndex s mod int (length (currentPlaylist s)) = 0" by simp
  let ?z = "s\<lparr>currentIndex := 0\<rparr>"
  have c: "playNextVideo pf now s = playNextVideo pf now ?z"
    using playNextVideo_clamp [OF assms(1,2,5), of pf now] e by simp
  have "playNextVideo pf now ?z = Some (cue pf now ?z)"
    using playNextVideo_play [of ?z pf now] assms m by simp
  with c m show ?thesis by simp
qed

lemma natural_exit_step:
  assumes "isStreaming s" "masterStdin s" "\<not> skipToTarget s"
    and "0 \<le> currentIndex s" "currentIndex s < int (length (currentPlaylist s))"
    and "playable pf (currentPlaylist s !
           nat ((currentIndex s + 1) mod int (length (currentPlaylist s))))"
  shows "feeder_close pf now (Some 0) s =
         Some (cue pf now
           (s\<lparr>currentIndex := (currentIndex s + 1) mod int (length (currentPlaylist s))\<rparr>))"
proof -
  let ?a = "s\<lparr>currentIndex := currentIndex s + 1\<rparr>"
  have "0 < length (currentPlaylist s)" using assms(4,5) by linarith
  then have ne: "currentPlaylist s \<noteq> []" by simp
  have "feeder_close pf now (Some 0) s = playNextVideo pf now ?a"
    using assms(3) by (simp add: feeder_close_def)
  also have "\<dots> = Some (cue pf now (?a\<lparr>currentIndex := currentIndex ?a mod int (length (currentPlaylist ?a))\<rparr>))"
    using assms ne by (intro playNextVideo_wrapped) simp_all
  finally show ?thesis by simp
qed

lemma feeder_exits_index:
  assumes "isStreaming s" "masterStdin s" "\<not> skipToTarget s"
    and "\<forall>v \<in> set (currentPlaylist s). playable pf v"
    and "0 \<le> currentIndex s" "currentIndex s < int (length (currentPlaylist s))"
  shows "\<exists>s'. feeder_exits pf nows s = Some s' \<and>
           currentIndex s' = (currentIndex s + int (length nows)) mod int (length (currentPlaylist s)) \<and>
           currentPlaylist s' = currentPlaylist s \<and> isStreaming s' \<and> masterStdin s' \<and>
           \<not> skipToTarget s'"
  using assms
proof (induction nows arbitrary: s)
  case Nil
  then show ?case by simp
next
  case (Cons now nows)
  let ?n = "int (length (currentPlaylist s))"
  let ?j = "(currentIndex s + 1) mod ?n"
  let ?s1 = "cue pf now (s\<lparr>currentIndex := ?j\<rparr>)"
  have npos: "0 < ?n" using Cons.prems(5,6) by linarith
  have j: "0 \<le> ?j" "?j < ?n" using npos by simp_all
  then have "nat ?j < length (currentPlaylist s)" by simp
  then have pj: "playable pf (currentPlaylist s ! nat ?j)"
    using Cons.prems(4) by simp
  have step: "feeder_close pf now (Some 0) s = Some ?s1"
    using Cons.prems pj by (intro natural_exit_step) simp_all
  have "\<exists>s'. feeder_exits pf nows ?s1 = Some s' \<and>
           currentIndex s' = (currentIndex ?s1 + int (length nows)) mod int (length (currentPlaylist ?s1)) \<and>
           currentPlaylist s' = currentPlaylist ?s1 \<and> isStreaming s' \<and> masterStdin s' \<and>
           \<not> skipToTarget s'"
    using Cons.prems j by (intro Cons.IH) simp_all
  then obtain s' where s': "feeder_exits pf nows ?s1 = Some s'"
    "currentIndex s' = (?j + int (length nows)) mod ?n"
    "currentPlaylist s' = currentPlaylist s" "isStreaming s'" "masterStdin s'" "\<not> skipToTarget s'"
    by auto
  have "(?j + int (length nows)) mod ?n = (currentIndex s + 1 + int (length nows)) mod ?n"
    by (rule mod_add_left_eq)
  then have "(?j + int (length nows)) mod ?n = (currentIndex s + int (length (now # nows))) mod ?n"
    by (simp add: add.assoc)
  with s' step show ?case by simp
qed


lemma playNextVideo_forward:
  assumes "isStreaming s" "masterStdin s"
    and "c \<le> k" "k < length (currentPlaylist s)" "playable pf (currentPlaylist s ! k)"
    and "\<forall>j. c \<le> j \<and> j < k \<longrightarrow> \<not> playable pf (currentPlaylist s ! j)"
  shows "playNextVideo pf now (s\<lparr>currentIndex := int c\<rparr>) =
           Some (cue pf now (s\<lparr>currentIndex := int k\<rparr>))"
  using assms(3,6)
proof (induction "k - c" arbitrary: c)
  case 0
  then have ck: "c = k" by simp
  have "playNextVideo pf now (s\<lparr>currentIndex := int k\<rparr>) =
          Some (cue pf now (s\<lparr>currentIndex := int k\<rparr>))"
    using assms(1,2,4,5) by (intro playNextVideo_play) simp_all
  with ck show ?case by simp
next
  case (Suc n)
  then have lt: "c < k" by simp
  with Suc.prems(2) have np: "\<not> playable pf (currentPlaylist s ! c)" by simp
  have "playNextVideo pf now (s\<lparr>currentIndex := int c\<rparr>) =
          playNextVideo pf now (s\<lparr>currentIndex := int c\<rparr>\<lparr>currentIndex := currentIndex (s\<lparr>currentIndex := int c\<rparr>) + 1\<rparr>)"
    using assms(1,2,4) lt np by (intro playNextVideo_missing) simp_all
  then have "playNextVideo pf now (s\<lparr>currentIndex := int c\<rparr>) =
          playNextVideo pf now (s\<lparr>currentIndex := int (Suc c)\<rparr>)"
    by (simp add: add.commute)
  moreover have "playNextVideo pf now (s\<lparr>currentIndex := int (Suc c)\<rparr>) =
          Some (cue pf now (s\<lparr>currentIndex := int k\<rparr>))"
    using Suc.hyps(2) lt Suc.prems(2) by (intro Suc.hyps(1)) auto
  ultimately show ?case by simp
qed

lemma playNextVideo_to_end:
  assumes "isStreaming s" "masterStdin s" "currentPlaylist s \<noteq> []"
    and "c \<le> length (currentPlaylist s)"
    and "\<forall>j. c \<le> j \<and> j < length (currentPlaylist s) \<longrightarrow> \<not> playable pf (currentPlaylist s ! j)"
  shows "playNextVideo pf now (s\<lparr>currentIndex := int c\<rparr>) =
           playNextVideo pf now (s\<lparr>currentIndex := 0\<rparr>)"
  using assms(4,5)
proof (induction "length (currentPlaylist s) - c" arbitrary: c)
  case 0
  then have "c = length (currentPlaylist s)" by simp
  then show ?case
    using playNextVideo_clamp [of "s\<lparr>currentIndex := int c\<rparr>" pf now] assms(1,2,3) by simp
next
  case (Suc n)
  then have lt: "c < length (currentPlaylist s)" by simp
  with Suc.prems(2) have np: "\<not> playable pf (currentPlaylist s ! c)" by simp
  have "playNextVideo pf now (s\<lparr>currentIndex := int c\<rparr>) =
          playNextVideo pf now (s\<lparr>currentIndex := int c\<rparr>\<lparr>currentIndex := currentIndex (s\<lparr>currentIndex := int c\<rparr>) + 1\<rparr>)"
    using assms(1,2) lt np by (intro playNextVideo_missing) simp_all
  then have "playNextVideo pf now (s\<lparr>currentIndex := int c\<rparr>) =
          playNextVideo pf now (s\<lparr>currentIndex := int (Suc c)\<rparr>)"
    by (simp add: add.commute)
  moreover have "playNextVideo pf now (s\<lparr>currentIndex := int (Suc c)\<rparr>) =
          playNextVideo pf now (s\<lparr>currentIndex := 0\<rparr>)"
    using Suc.hyps(2) lt Suc.prems(2) by (intro Suc.hyps(1)) auto
  ultimately show ?case by simp
qed

lemma playNextVideo_returns:
  assumes "isStreaming s" "masterStdin s" "\<exists>v \<in> set (currentPlaylist s). playable pf v"
  shows "\<exists>y. playNextVideo pf now s = Some y"
proof -
  let ?pl = "currentPlaylist s"
  from assms(3) have ne: "?pl \<noteq> []" by auto
  from assms(3) obtain k0 where k0: "k0 < length ?pl" "playable pf (?pl ! k0)"
    by (auto simp: in_set_conv_nth)
  define c where "c = (if currentIndex s < 0 \<or> int (length ?pl) \<le> currentIndex s then 0
                       else nat (currentIndex s))"
  have start: "playNextVideo pf now s = playNextVideo pf now (s\<lparr>currentIndex := int c\<rparr>)"
  proof (cases "currentIndex s < 0 \<or> int (length ?pl) \<le> currentIndex s")
    case True
    then show ?thesis
      using playNextVideo_clamp [OF assms(1,2) ne, of pf now] by (simp add: c_def)
  next
    case False
    then have "s\<lparr>currentIndex := int c\<rparr> = s" by (simp add: c_def)
    then show ?thesis by simp
  qed
  have c: "c \<le> length ?pl" by (auto simp: c_def)
  let ?Q = "\<lambda>k. k < length ?pl \<and> playable pf (?pl ! k)"
  show ?thesis
  proof (cases "\<exists>k. c \<le> k \<and> ?Q k")
    case True
    define k where "k = (LEAST k. c \<le> k \<and> ?Q k)"
    from True have kk: "c \<le> k \<and> ?Q k" unfolding k_def by (rule LeastI_ex)
    have "\<forall>j. c \<le> j \<and> j < k \<longrightarrow> \<not> playable pf (?pl ! j)"
    proof (intro allI impI)
      fix j assume j: "c \<le> j \<and> j < k"
      then have "\<not> (c \<le> j \<and> ?Q j)" unfolding k_def by (auto dest: not_less_Least)
      with j kk show "\<not> playable pf (?pl ! j)" by simp
    qed
    with kk have "playNextVideo pf now (s\<lparr>currentIndex := int c\<rparr>) =
                    Some (cue pf now (s\<lparr>currentIndex := int k\<rparr>))"
      using assms(1,2) by (intro playNextVideo_forward) simp_all
    with start show ?thesis by simp
  next
    case False
    then have none: "\<forall>j. c \<le> j \<and> j < length ?pl \<longrightarrow> \<not> playable pf (?pl ! j)" by blast
    have e: "playNextVideo pf now (s\<lparr>currentIndex := int c\<rparr>) =
               playNextVideo pf now (s\<lparr>currentIndex := 0\<rparr>)"
      using assms(1,2) ne c none by (intro playNextVideo_to_end) simp_all
    define k where "k = (LEAST k. ?Q k)"
    from k0 have kk: "?Q k" unfolding k_def by (intro LeastI [of ?Q k0]) simp
    have "\<forall>j. 0 \<le> j \<and> j < k \<longrightarrow> \<not> playable pf (?pl ! j)"
    proof (intro allI impI)
      fix j assume j: "0 \<le> j \<and> j < k"
      then have "\<not> ?Q j" unfolding k_def by (auto dest: not_less_Least)
      with j kk show "\<not> playable pf (?pl ! j)" by simp
    qed
    with kk have "playNextVideo pf now (s\<lparr>currentIndex := int 0\<rparr>) =
                    Some (cue pf now (s\<lparr>currentIndex := int k\<rparr>))"
      using assms(1,2) by (intro playNextVideo_forward) simp_all
    with start e show ?thesis by simp
  qed
qed

lemma filter_all_kept: "length (filter (\<lambda>x. \<not> P x) xs) = 0 \<Longrightarrow> filter P xs = xs"
  by (induction xs) (auto split: if_splits)

lemma cleanPlaylist_valid: "fst (cleanPlaylist pf pl) = filter (playable pf) pl"
  by (simp add: cleanPlaylist_def Let_def)

lemma adopt_playlist_eq:
  "adopt_playlist pf cfg0 s =
     (cfg0\<lparr>playlist := filter (playable pf) (playlist cfg0)\<rparr>,
      s\<lparr>currentPlaylist := filter (playable pf) (playlist cfg0),
        currentIndex := resume_index (stateFile s) (filter (playable pf) (playlist cfg0))\<rparr>)"
proof (cases "length (filter (\<lambda>x. \<not> playable pf x) (playlist cfg0)) = 0")
  case True
  then have "filter (playable pf) (playlist cfg0) = playlist cfg0"
    by (rule filter_all_kept)
  then show ?thesis using True
    by (auto simp: adopt_playlist_def cleanPlaylist_def resume_index_def Let_def
        split: option.splits)
next
  case False
  then show ?thesis
    by (auto simp: adopt_playlist_def cleanPlaylist_def resume_index_def Let_def
        split: option.splits)
qed

lemma resume_index_range:
  "pl \<noteq> [] \<Longrightarrow> 0 \<le> resume_index file pl \<and> resume_index file pl < int (length pl)"
  by (auto simp: resume_index_def split: option.splits)

lemma runtime_updates_same:
  "lastConfig s = Some cfg \<Longrightarrow> runtime_updates pf cfg s = s"
  by (simp add: runtime_updates_def criticalChanged_def)

lemma runtime_updates_idle:
  "\<not> isStreaming s \<Longrightarrow> runtime_updates pf cfg s = s"
  by (simp add: runtime_updates_def)

lemma poll_start_blocked:
  assumes "is_active cfg0" "\<not> isStreaming s"
    and "masterFfmpeg s \<noteq> None \<or> \<not> truthy (rtmp_url cfg0) \<or> \<not> truthy (stream_key cfg0)"
  shows "pollStreamConfig pf now (Some cfg0) s =
           Some (s\<lparr>currentPlaylist := filter (playable pf) (playlist cfg0),
                   currentIndex := resume_index (stateFile s) (filter (playable pf) (playlist cfg0)),
                   lastConfig := Some (cfg0\<lparr>playlist := filter (playable pf) (playlist cfg0)\<rparr>)\<rparr>)"
  using assms
  by (auto simp: pollStreamConfig_def adopt_playlist_eq startMasterStream_def runtime_updates_idle)

lemma poll_start_empty:
  assumes "is_active cfg0" "\<not> isStreaming s" "masterFfmpeg s = None"
    and "truthy (rtmp_url cfg0)" "truthy (stream_key cfg0)"
    and "filter (playable pf) (playlist cfg0) = []"
  shows "pollStreamConfig pf now (Some cfg0) s =
           Some (s\<lparr>currentPlaylist := [],
                   currentIndex := 0,
                   masterFfmpeg := Some (master_of cfg0), masterStdin := True, isStreaming := True,
                   timers := timers s @ [2000],
                   lastConfig := Some (cfg0\<lparr>playlist := []\<rparr>)\<rparr>)"
proof -
  let ?cfg = "cfg0\<lparr>playlist := []\<rparr>"
  let ?s2 = "s\<lparr>currentPlaylist := [], currentIndex := resume_index (stateFile s) []\<rparr>"
  let ?s3 = "?s2\<lparr>masterFfmpeg := Some (master_of cfg0), masterStdin := True, isStreaming := True\<rparr>"
  have r: "resume_index (stateFile s) [] = 0"
    by (simp add: resume_index_def split: option.splits)
  have a: "adopt_playlist pf cfg0 s = (?cfg, ?s2)"
    using assms(6) by (simp add: adopt_playlist_eq)
  have m: "startMasterStream pf now ?cfg ?s2 = playNextVideo pf now ?s3"
    using assms(3,4,5) by (simp add: startMasterStream_def master_of_def)
  have p: "playNextVideo pf now ?s3 = Some (?s3\<lparr>timers := timers ?s3 @ [2000]\<rparr>)"
    by (rule playNextVideo_empty) simp_all
  have "runtime_updates pf ?cfg (?s3\<lparr>timers := timers ?s3 @ [2000], lastConfig := Some ?cfg\<rparr>) =
          ?s3\<lparr>timers := timers ?s3 @ [2000], lastConfig := Some ?cfg\<rparr>"
    by (rule runtime_updates_same) simp
  with a m p assms(1,2) r show ?thesis
    by (simp add: pollStreamConfig_def)
qed

lemma poll_start_cue:
  assumes "is_active cfg0" "\<not> isStreaming s" "masterFfmpeg s = None"
    and "truthy (rtmp_url cfg0)" "truthy (stream_key cfg0)"
    and "filter (playable pf) (playlist cfg0) \<noteq> []"
  shows "pollStreamConfig pf now (Some cfg0) s =
           Some ((cue pf now
                   (s\<lparr>currentPlaylist := filter (playable pf) (playlist cfg0),
                      currentIndex := resume_index (stateFile s) (filter (playable pf) (playlist cfg0)),
                      masterFfmpeg := Some (master_of cfg0), masterStdin := True,
                      isStreaming := True\<rparr>))
                 \<lparr>lastConfig := Some (cfg0\<lparr>playlist := filter (playable pf) (playlist cfg0)\<rparr>)\<rparr>)"
proof -
  let ?pl = "filter (playable pf) (playlist cfg0)"
  let ?cfg = "cfg0\<lparr>playlist := ?pl\<rparr>"
  let ?s2 = "s\<lparr>currentPlaylist := ?pl, currentIndex := resume_index (stateFile s) ?pl\<rparr>"
  let ?s3 = "?s2\<lparr>masterFfmpeg := Some (master_of cfg0), masterStdin := True, isStreaming := True\<rparr>"
  have r: "0 \<le> resume_index (stateFile s) ?pl" "resume_index (stateFile s) ?pl < int (length ?pl)"
    using resume_index_range [OF assms(6)] by simp_all
  then have "nat (resume_index (stateFile s) ?pl) < length ?pl" by simp
  then have "?pl ! nat (resume_index (stateFile s) ?pl) \<in> set ?pl" by (rule nth_mem)
  then have pb: "playable pf (?pl ! nat (resume_index (stateFile s) ?pl))" by simp
  have a: "adopt_playlist pf cfg0 s = (?cfg, ?s2)"
    by (simp add: adopt_playlist_eq)
  have m: "startMasterStream pf now ?cfg ?s2 = playNextVideo pf now ?s3"
    using assms(3,4,5) by (simp add: startMasterStream_def master_of_def)
  have p: "playNextVideo pf now ?s3 = Some (cue pf now ?s3)"
    using r pb by (intro playNextVideo_play) simp_all
  have "runtime_updates pf ?cfg ((cue pf now ?s3)\<lparr>lastConfig := Some ?cfg\<rparr>) =
          (cue pf now ?s3)\<lparr>lastConfig := Some ?cfg\<rparr>"
    by (rule runtime_updates_same) simp
  with a m p assms(1,2) show ?thesis
    by (simp add: pollStreamConfig_def)
qed


lemma poll_hot_reload:
  assumes "isStreaming s" "is_active cfg" "lastConfig s = Some lastCfg"
    and "\<not> criticalChanged cfg lastCfg" "playlist lastCfg \<noteq> playlist cfg"
  shows "pollStreamConfig pf now (Some cfg) s =
           Some (s\<lparr>currentPlaylist := filter (playable pf) (playlist cfg),
                   currentIndex := pointer_correction (currentPlaylist s) (currentIndex s)
                                     (filter (playable pf) (playlist cfg)),
                   lastConfig := Some cfg\<rparr>)"
  using assms
  by (auto simp: pollStreamConfig_def runtime_updates_def pointer_correction_def
      cleanPlaylist_valid Let_def split: option.splits)

lemma poll_critical:
  assumes "isStreaming s" "is_active cfg" "lastConfig s = Some lastCfg"
    and "criticalChanged cfg lastCfg"
  shows "pollStreamConfig pf now (Some cfg) s = Some (stopStream s)"
  using assms by (simp add: pollStreamConfig_def runtime_updates_def)

lemma same_video_truthy: "same_video v old \<Longrightarrow> item_truthy old"
  by (cases old) (auto simp: same_video_def item_truthy_def truthy_def)

lemma stopStream_fields [simp]:
  "isStreaming (stopStream s) = False"
  "masterFfmpeg (stopStream s) = None"
  "currentFeederProcess (stopStream s) = None"
  "currentPlaylist (stopStream s) = currentPlaylist s"
  "currentIndex (stopStream s) = currentIndex s"
  "stateFile (stopStream s) = stateFile s"
  "lastConfig (stopStream s) = lastConfig s"
  "timers (stopStream s) = timers s"
  by (simp_all add: stopStream_def Let_def)

lemma poll_start_streaming:
  assumes "is_active cfg0" "\<not> isStreaming s" "masterFfmpeg s = None"
    and "truthy (rtmp_url cfg0)" "truthy (stream_key cfg0)"
  shows "\<exists>s'. pollStreamConfig pf now (Some cfg0) s = Some s' \<and>
           isStreaming s' \<and> masterStdin s' \<and> masterFfmpeg s' = Some (master_of cfg0) \<and>
           currentPlaylist s' = filter (playable pf) (playlist cfg0) \<and>
           currentIndex s' = resume_index (stateFile s) (filter (playable pf) (playlist cfg0)) \<and>
           lastConfig s' = Some (cfg0\<lparr>playlist := filter (playable pf) (playlist cfg0)\<rparr>) \<and>
           (filter (playable pf) (playlist cfg0) = [] \<longrightarrow>
              timers s' = timers s @ [2000] \<and> currentFeederProcess s' = currentFeederProcess s \<and>
              stateFile s' = stateFile s) \<and>
           (filter (playable pf) (playlist cfg0) \<noteq> [] \<longrightarrow>
              timers s' = timers s \<and>
              currentFeederProcess s' =
                Some \<lparr>feederFile = the (getVideoPath pf (currentPlaylist s' ! nat (currentIndex s'))),
                      killed = False\<rparr> \<and>
              stateFile s' =
                Some \<lparr>lastPlayedVideoId = item_id (currentPlaylist s' ! nat (currentIndex s')),
                      timestamp = now\<rparr>)"
proof (cases "filter (playable pf) (playlist cfg0) = []")
  case True
  from poll_start_empty [OF assms True, of now] True show ?thesis
    by (simp add: resume_index_def split: option.splits)
next
  case False
  from poll_start_cue [OF assms False, of now] False show ?thesis by simp
qed

lemma poll_start_index:
  assumes "is_active cfg0" "\<not> isStreaming s"
  shows "\<exists>s'. pollStreamConfig pf now (Some cfg0) s = Some s' \<and>
           currentPlaylist s' = filter (playable pf) (playlist cfg0) \<and>
           currentIndex s' = resume_index (stateFile s) (filter (playable pf) (playlist cfg0))"
proof (cases "masterFfmpeg s \<noteq> None \<or> \<not> truthy (rtmp_url cfg0) \<or> \<not> truthy (stream_key cfg0)")
  case True
  from poll_start_blocked [OF assms True, of pf now] show ?thesis by simp
next
  case False
  then have "masterFfmpeg s = None" "truthy (rtmp_url cfg0)" "truthy (stream_key cfg0)"
    by simp_all
  from poll_start_streaming [OF assms this, of pf now] show ?thesis by blast
qed

lemma resume_index_found:
  assumes "truthy (lastPlayedVideoId saved)" "i < length pl"
    and "item_id (pl ! i) = lastPlayedVideoId saved"
    and "\<forall>j < i. item_id (pl ! j) \<noteq> lastPlayedVideoId saved"
  shows "resume_index (Some saved) pl = (int i + 1) mod int (length pl)"
proof -
  have "findIndex (\<lambda>v. item_id v = lastPlayedVideoId saved) pl = int i"
    using assms(2,3,4) by (intro findIndex_first) simp_all
  with assms(1) show ?thesis by (simp add: resume_index_def)
qed

lemma resume_index_missing:
  assumes "\<not> truthy (lastPlayedVideoId saved) \<or> (\<forall>v \<in> set pl. item_id v \<noteq> lastPlayedVideoId saved)"
  shows "resume_index (Some saved) pl = 0"
proof (cases "truthy (lastPlayedVideoId saved)")
  case True
  with assms have "\<forall>v \<in> set pl. \<not> (item_id v = lastPlayedVideoId saved)" by blast
  then have "findIndex (\<lambda>v. item_id v = lastPlayedVideoId saved) pl = - 1"
    by (simp only: findIndex_none)
  then show ?thesis by (simp add: resume_index_def)
next
  case False
  then show ?thesis by (simp add: resume_index_def)
qed

lemma pointer_correction_unmatched:
  assumes "at_index old i = Some v" "\<forall>w \<in> set new. \<not> same_video w v" "i < int (length new)"
  shows "pointer_correction old i new = i"
proof -
  from assms(2) have "findIndex (\<lambda>w. same_video w v) new = - 1"
    by (simp only: findIndex_none)
  with assms(1,3) show ?thesis by (simp add: pointer_correction_def)
qed

lemma pointer_correction_range:
  assumes "at_index old i = Some v" "item_truthy v" "new \<noteq> []"
  shows "0 \<le> pointer_correction old i new \<and> pointer_correction old i new < int (length new)"
proof (cases "findIndex (\<lambda>w. same_video w v) new = - 1")
  case True
  from assms(1) have "0 \<le> i" by (simp add: at_index_def split: if_splits)
  with True assms show ?thesis by (simp add: pointer_correction_def)
next
  case False
  from findIndex_found [OF False] False assms(1,2) show ?thesis
    by (simp add: pointer_correction_def)
qed

lemma demo_paths:
  "getVideoPath demo_platform video_A = Some ''/srv/streamflow/public/videos/a.mp4''"
  "getVideoPath demo_platform video_B = Some ''/srv/streamflow/public/videos/b.mp4''"
  "getVideoPath demo_platform video_C = Some ''/srv/streamflow/public/videos/c.mp4''"
  "getVideoPath demo_platform video_D = Some ''/srv/streamflow/public/videos/d.mp4''"
  by (simp_all add: getVideoPath_def video_A_def video_B_def video_C_def video_D_def truthy_def
      VIDEOS_DIR_def demo_platform_def posix_join_def posix_normalize_def)

lemma demo_playable:
  "playable demo_platform video_A" "playable demo_platform video_B"
  "playable demo_platform video_C" "\<not> playable demo_platform video_D"
  by (simp_all add: playable_def demo_paths truthy_def) (simp_all add: demo_platform_def)

lemma demo_before_paths:
  "getVideoPath demo_platform_before video_A = Some ''/srv/streamflow/public/videos/a.mp4''"
  "getVideoPath demo_platform_before video_B = Some ''/srv/streamflow/public/videos/b.mp4''"
  "getVideoPath demo_platform_before video_C = Some ''/srv/streamflow/public/videos/c.mp4''"
  "getVideoPath demo_platform_before video_D = Some ''/srv/streamflow/public/videos/d.mp4''"
  by (simp_all add: getVideoPath_def video_A_def video_B_def video_C_def video_D_def truthy_def
      VIDEOS_DIR_def demo_platform_before_def posix_join_def posix_normalize_def)

lemma demo_before_playable:
  "playable demo_platform_before video_A" "playable demo_platform_before video_B"
  "playable demo_platform_before video_C" "playable demo_platform_before video_D"
  by (simp_all add: playable_def demo_before_paths truthy_def)
     (simp_all add: demo_platform_before_def)

lemma demo_start:
  assumes "filter (playable pf) pl = pl" "pl \<noteq> []"
  shows "pollStreamConfig pf now (Some (demo_config pl)) (initial_engine None) =
           Some (demo_streaming pl 0
                   \<lparr>currentFeederProcess :=
                      Some \<lparr>feederFile = the (getVideoPath pf (pl ! 0)), killed = False\<rparr>,
                    stateFile := Some \<lparr>lastPlayedVideoId = item_id (pl ! 0), timestamp = now\<rparr>\<rparr>)"
proof -
  have h: "is_active (demo_config pl)" "\<not> isStreaming (initial_engine None)"
    "masterFfmpeg (initial_engine None) = None"
    "truthy (rtmp_url (demo_config pl))" "truthy (stream_key (demo_config pl))"
    by (simp_all add: demo_config_def initial_engine_def truthy_def)
  have f: "filter (playable pf) (playlist (demo_config pl)) = pl"
    using assms(1) by (simp add: demo_config_def)
  have n: "filter (playable pf) (playlist (demo_config pl)) \<noteq> []"
    using f assms(2) by simp
  have c: "(demo_config pl)\<lparr>playlist := pl\<rparr> = demo_config pl"
    by (simp add: demo_config_def)
  from poll_start_cue [OF h n, of now] f c show ?thesis
    by (simp add: cue_def resume_index_def master_of_def demo_config_def initial_engine_def
        demo_streaming_def Let_def)
qed

lemma demo_reached:
  assumes "filter (playable demo_platform) pl = pl" "pl \<noteq> []"
  shows "pollStreamConfig demo_platform 0 (Some (demo_config pl)) (initial_engine None) =
           Some (demo_streaming pl 0)"
  using demo_start [OF assms, of 0] by (simp add: demo_streaming_def)

lemma playNextVideo_checkpoint:
  assumes "playNextVideo pf t u = Some u'" "isStreaming u" "masterStdin u" "currentPlaylist u \<noteq> []"
  shows "currentPlaylist u' = currentPlaylist u \<and>
         0 \<le> currentIndex u' \<and> currentIndex u' < int (length (currentPlaylist u')) \<and>
         playable pf (currentPlaylist u' ! nat (currentIndex u')) \<and>
         currentFeederProcess u' =
           Some \<lparr>feederFile = the (getVideoPath pf (currentPlaylist u' ! nat (currentIndex u'))),
                 killed = False\<rparr> \<and>
         stateFile u' =
           Some \<lparr>lastPlayedVideoId = item_id (currentPlaylist u' ! nat (currentIndex u')),
                 timestamp = t\<rparr>"
proof -
  from playNextVideo_result [OF assms(1)] assms(2-4) obtain k where
    k: "0 \<le> k" "k < int (length (currentPlaylist u))" "playable pf (currentPlaylist u ! nat k)"
    "u' = cue pf t (u\<lparr>currentIndex := k\<rparr>)"
    by blast
  then show ?thesis by simp
qed

lemma demo_same_video:
  "same_video video_A video_A" "\<not> same_video video_A video_B" "\<not> same_video video_A video_C"
  "\<not> same_video video_B video_A" "same_video video_B video_B" "\<not> same_video video_B video_C"
  "\<not> same_video video_C video_A" "\<not> same_video video_C video_B" "same_video video_C video_C"
  by (simp_all add: same_video_def video_A_def video_B_def video_C_def truthy_def)

lemma demo_truthy:
  "item_truthy video_A" "item_truthy video_B" "item_truthy video_C"
  by (simp_all add: item_truthy_def video_A_def video_B_def video_C_def)

lemma demo_hot_reload:
  assumes "isStreaming s" "lastConfig s = Some (demo_config pl0)" "pl0 \<noteq> pl"
    and "filter (playable demo_platform) pl = pl"
  shows "pollStreamConfig demo_platform now (Some (demo_config pl)) s =
           Some (s\<lparr>currentPlaylist := pl,
                   currentIndex := pointer_correction (currentPlaylist s) (currentIndex s) pl,
                   lastConfig := Some (demo_config pl)\<rparr>)"
proof -
  have h: "is_active (demo_config pl)" "\<not> criticalChanged (demo_config pl) (demo_config pl0)"
    "playlist (demo_config pl0) \<noteq> playlist (demo_config pl)"
    using assms(3) by (simp_all add: demo_config_def criticalChanged_def)
  have v: "filter (playable demo_platform) (playlist (demo_config pl)) = pl"
    using assms(4) by (simp add: demo_config_def)
  from poll_hot_reload [OF assms(1) h(1) assms(2) h(2,3), of demo_platform now] v
  show ?thesis by simp
qed

subsection \<open>The natural advance\<close>

text \<open>
  C2, as amended. While the Master runs and no skip is pending, on a playlist of length
  \<open>N \<ge> 1\<close> whose entries all resolve to files that exist, every Feeder exit with code 0
  moves the index one step forward modulo \<open>N\<close>: after \<open>k\<close> exits the index is
  \<open>(i + k) mod N\<close>, and after \<open>N\<close> exits it is back at its starting value \<open>i\<close>.
\<close>

theorem natural_advance_wraps:
  assumes "isStreaming s" "masterStdin s" "\<not> skipToTarget s"
    and "\<forall>v \<in> set (currentPlaylist s). playable pf v"
    and "0 \<le> currentIndex s" "currentIndex s < int (length (currentPlaylist s))"
  shows "\<exists>s'. feeder_exits pf nows s = Some s' \<and>
           currentPlaylist s' = currentPlaylist s \<and>
           currentIndex s' =
             (currentIndex s + int (length nows)) mod int (length (currentPlaylist s)) \<and>
           (length nows = length (currentPlaylist s) \<longrightarrow> currentIndex s' = currentIndex s)"
proof -
  from feeder_exits_index [OF assms, of nows] obtain s' where
    s': "feeder_exits pf nows s = Some s'" "currentPlaylist s' = currentPlaylist s"
    "currentIndex s' = (currentIndex s + int (length nows)) mod int (length (currentPlaylist s))"
    by blast
  have "currentIndex s' = currentIndex s" if "length nows = length (currentPlaylist s)"
    using that s'(3) assms(5,6) by simp
  with s' show ?thesis by blast
qed

theorem natural_advance_wraps_witness:
  "map_option index_and_length
     (feeder_exits demo_platform [10, 20, 30] (demo_streaming [video_A, video_B, video_C] 1)) =
   Some (1, 3)"
proof -
  let ?s = "demo_streaming [video_A, video_B, video_C] 1"
  have h: "isStreaming ?s" "masterStdin ?s" "\<not> skipToTarget ?s"
    "\<forall>v \<in> set (currentPlaylist ?s). playable demo_platform v"
    "0 \<le> currentIndex ?s" "currentIndex ?s < int (length (currentPlaylist ?s))"
    by (simp_all add: demo_streaming_def demo_playable)
  have n: "length [10, 20, 30 :: nat] = length (currentPlaylist ?s)"
    by (simp add: demo_streaming_def)
  from natural_advance_wraps [OF h, of "[10, 20, 30]"] obtain s' where
    s': "feeder_exits demo_platform [10, 20, 30] ?s = Some s'"
    "currentPlaylist s' = currentPlaylist ?s"
    "length [10, 20, 30 :: nat] = length (currentPlaylist ?s) \<longrightarrow> currentIndex s' = currentIndex ?s"
    by blast
  from s'(3) n have "currentIndex s' = currentIndex ?s" by blast
  with s'(1,2) show ?thesis by (simp add: index_and_length_def demo_streaming_def)
qed

text \<open>
  C2 as stated fails when a file has gone: \<open>playNextVideo\<close> steps over the entry whose
  file is missing. The stream starts on a playlist of three entries whose files exist;
  then the file of the third is deleted. Three Feeder exits with code 0 take the index
  from 0 to 1.
\<close>

theorem natural_advance_counterexample:
  "map_option index_and_length
     (Option.bind
        (run demo_platform_before [Poll 0 (Some (demo_config [video_A, video_B, video_D]))]
           (initial_engine None))
        (feeder_exits demo_platform [10, 20, 30])) = Some (1, 3)"
proof -
  have "filter (playable demo_platform_before) [video_A, video_B, video_D] =
          [video_A, video_B, video_D]"
    by (simp add: demo_before_playable)
  from demo_start [OF this, of 0] show ?thesis
    by (simp add: feeder_close_def playNextVideo.simps demo_streaming_def index_and_length_def
        demo_playable Let_def)
qed

subsection \<open>The manual skip\<close>

text \<open>
  C10. The skip handler rejects a request made while the engine is not streaming, and a
  request whose direction is neither \<^verbatim>\<open>next\<close> nor \<^verbatim>\<open>previous\<close> (a missing
  direction included), with status 400; the engine state is returned as it was, so the
  index keeps its value, the skip flag is not set and no Feeder is killed.
\<close>

theorem control_skip_rejects:
  assumes "\<not> isStreaming s \<or> (direction \<noteq> Some ''next'' \<and> direction \<noteq> Some ''previous'')"
  shows "control_skip direction s =
           (Json_error 400 (if \<not> isStreaming s then ''Stream not active''
                            else ''Invalid direction''), s)"
  using assms by (auto simp: control_skip_def)

theorem control_skip_rejects_witness:
  "isStreaming (demo_streaming [video_A, video_B] 0) \<and>
   control_skip (Some ''sideways'') (demo_streaming [video_A, video_B] 0) =
     (Json_error 400 ''Invalid direction'', demo_streaming [video_A, video_B] 0) \<and>
   control_skip (Some ''next'') (initial_engine None) =
     (Json_error 400 ''Stream not active'', initial_engine None)"
proof -
  have h: "\<not> isStreaming (demo_streaming [video_A, video_B] 0) \<or>
      (Some ''sideways'' \<noteq> Some ''next'' \<and> Some ''sideways'' \<noteq> Some ''previous'')"
    by simp
  have st: "isStreaming (demo_streaming [video_A, video_B] 0)"
    by (simp add: demo_streaming_def)
  have i: "\<not> isStreaming (initial_engine None) \<or>
      (Some ''next'' \<noteq> Some ''next'' \<and> Some ''next'' \<noteq> Some ''previous'')"
    by (simp add: initial_engine_def)
  have idle: "\<not> isStreaming (initial_engine None)"
    by (simp add: initial_engine_def)
  from control_skip_rejects [OF h] control_skip_rejects [OF i] st idle
  show ?thesis by simp
qed

text \<open>
  C3, as amended. While streaming, with a Feeder running and the index \<open>i\<close> inside the
  playlist of length \<open>L\<close>, the skip handler answers with the target \<open>(i + 1) mod L\<close>
  for \<^verbatim>\<open>next\<close> and \<open>(i - 1 + L) mod L\<close> for \<^verbatim>\<open>previous\<close>, stores it in the
  index, sets the skip flag and kills the Feeder. The Feeder's close handler, whatever the
  exit code, then clears the flag and calls \<open>playNextVideo\<close> on the target without
  adding one; when the target's file exists, the Feeder spawned is the target's.
\<close>

theorem manual_skip_plays_target:
  assumes "isStreaming s" "masterStdin s" "currentFeederProcess s = Some f"
    and "0 \<le> currentIndex s" "currentIndex s < int (length (currentPlaylist s))"
    and "direction = ''next'' \<and>
           target = (currentIndex s + 1) mod int (length (currentPlaylist s)) \<or>
         direction = ''previous'' \<and>
           target = (currentIndex s - 1 + int (length (currentPlaylist s)))
                      mod int (length (currentPlaylist s))"
  shows "\<exists>s1. control_skip (Some direction) s = (Json_success target, s1) \<and>
           s1 = s\<lparr>currentIndex := target, skipToTarget := True,
                  currentFeederProcess := Some (f\<lparr>killed := True\<rparr>)\<rparr> \<and>
           feeder_close pf now code s1 = playNextVideo pf now (s1\<lparr>skipToTarget := False\<rparr>) \<and>
           (playable pf (currentPlaylist s ! nat target) \<longrightarrow>
              (\<exists>s2. feeder_close pf now code s1 = Some s2 \<and>
                 currentIndex s2 = target \<and> \<not> skipToTarget s2 \<and>
                 currentPlaylist s2 = currentPlaylist s \<and>
                 currentFeederProcess s2 =
                   Some \<lparr>feederFile = the (getVideoPath pf (currentPlaylist s ! nat target)),
                         killed = False\<rparr>))"
proof -
  let ?L = "int (length (currentPlaylist s))"
  let ?s1 = "s\<lparr>currentIndex := target, skipToTarget := True,
                currentFeederProcess := Some (f\<lparr>killed := True\<rparr>)\<rparr>"
  have Lpos: "0 < ?L" using assms(4,5) by linarith
  have t: "0 \<le> target" "target < ?L"
    using assms(6) Lpos by auto
  have skip: "control_skip (Some direction) s = (Json_success target, ?s1)"
  proof (cases "direction = ''next''")
    case True
    with assms(6) have tg: "target = (currentIndex s + 1) mod ?L" by simp
    have "target = (if ?L \<le> currentIndex s + 1 then 0 else currentIndex s + 1)"
      using next_index_mod [OF assms(4,5)] tg by simp
    with True assms(1,3) show ?thesis
      by (simp add: control_skip_def truthy_def Let_def)
  next
    case False
    with assms(6) have d: "direction = ''previous''"
      and tg: "target = (currentIndex s - 1 + ?L) mod ?L" by simp_all
    have "target = (if currentIndex s - 1 < 0 then ?L - 1 else currentIndex s - 1)"
      using previous_index_mod [OF assms(4,5)] tg by simp
    with d assms(1,3) show ?thesis
      by (simp add: control_skip_def truthy_def Let_def)
  qed
  have close: "feeder_close pf now code ?s1 = playNextVideo pf now (?s1\<lparr>skipToTarget := False\<rparr>)"
    by (simp add: feeder_close_def)
  have play: "playNextVideo pf now (?s1\<lparr>skipToTarget := False\<rparr>) =
                Some (cue pf now (?s1\<lparr>skipToTarget := False\<rparr>))"
    if "playable pf (currentPlaylist s ! nat target)"
    using that assms(1,2) t by (intro playNextVideo_play) simp_all
  from skip close play show ?thesis by simp
qed

theorem manual_skip_plays_target_witness:
  "map_option index_and_length
     (run demo_platform [Skip (Some ''previous''), FeederClose 10 None]
        (demo_streaming [video_A, video_B, video_C] 0)) = Some (2, 3)"
proof -
  let ?s = "demo_streaming [video_A, video_B, video_C] 0"
  let ?f = "\<lparr>feederFile = ''/srv/streamflow/public/videos/a.mp4'', killed = False\<rparr>"
  have h: "isStreaming ?s" "masterStdin ?s" "currentFeederProcess ?s = Some ?f"
    "0 \<le> currentIndex ?s" "currentIndex ?s < int (length (currentPlaylist ?s))"
    by (simp_all add: demo_streaming_def demo_paths)
  have d: "''previous'' = ''next'' \<and> (2::int) = (currentIndex ?s + 1) mod int (length (currentPlaylist ?s)) \<or>
           ''previous'' = ''previous'' \<and>
           (2::int) = (currentIndex ?s - 1 + int (length (currentPlaylist ?s)))
                        mod int (length (currentPlaylist ?s))"
    by (simp add: demo_streaming_def)
  have p: "playable demo_platform (currentPlaylist ?s ! nat 2)"
    by (simp add: demo_streaming_def demo_playable)
  from manual_skip_plays_target [OF h d, of demo_platform 10 None] p
  obtain s1 s2 where "control_skip (Some ''previous'') ?s = (Json_success 2, s1)"
    "feeder_close demo_platform 10 None s1 = Some s2" "currentIndex s2 = 2"
    "currentPlaylist s2 = currentPlaylist ?s"
    by blast
  then show ?thesis by (simp add: index_and_length_def demo_streaming_def)
qed

text \<open>
  C3 as stated fails in two places. The stream starts on three entries whose files
  exist (index 0); then the file of the second is deleted. The skip \<^verbatim>\<open>next\<close> sets
  the index to the target 1, and the close handler's call of \<open>playNextVideo\<close> steps
  over the missing file: the Feeder spawned is that of index 2. And an index that is
  outside the playlist is reset, not reduced modulo \<open>L\<close>: a Feeder exit with code 1 on
  the last of two entries leaves the index at 2 until the retry, and there \<^verbatim>\<open>next\<close>
  gives 0, while \<open>(2 + 1) mod 2\<close> is 1.
\<close>

theorem manual_skip_counterexample:
  "map_option index_and_length
     (run demo_platform_before [Poll 0 (Some (demo_config [video_A, video_D, video_C]))]
        (initial_engine None)) = Some (0, 3) \<and>
   map_option index_and_length
     (Option.bind
        (run demo_platform_before [Poll 0 (Some (demo_config [video_A, video_D, video_C]))]
           (initial_engine None))
        (run demo_platform [Skip (Some ''next'')])) = Some (1, 3) \<and>
   map_option index_and_length
     (Option.bind
        (run demo_platform_before [Poll 0 (Some (demo_config [video_A, video_D, video_C]))]
           (initial_engine None))
        (run demo_platform [Skip (Some ''next''), FeederClose 10 None])) = Some (2, 3) \<and>
   map_option index_and_length
     (run demo_platform
        [Poll 0 (Some (demo_config [video_A, video_B])), FeederClose 10 (Some 0),
         FeederClose 20 (Some 1)]
        (initial_engine None)) = Some (2, 2) \<and>
   map_option index_and_length
     (run demo_platform
        [Poll 0 (Some (demo_config [video_A, video_B])), FeederClose 10 (Some 0),
         FeederClose 20 (Some 1), Skip (Some ''next'')]
        (initial_engine None)) = Some (0, 2) \<and>
   (2 + 1) mod int (length [video_A, video_B]) = 1"
proof -
  have b: "filter (playable demo_platform_before) [video_A, video_D, video_C] =
          [video_A, video_D, video_C]"
    by (simp add: demo_before_playable)
  have a: "filter (playable demo_platform) [video_A, video_B] = [video_A, video_B]"
    by (simp add: demo_playable)
  show ?thesis
    by (simp add: demo_start [OF b] demo_start [OF a] control_skip_def feeder_close_def
        playNextVideo.simps demo_streaming_def index_and_length_def demo_playable demo_paths
        truthy_def Let_def)
qed

subsection \<open>The hot reload of the playlist\<close>

text \<open>
  C1, as amended. The engine streams, the polled configuration is active, differs from
  the last one in no critical column and has another playlist, so the snapshot is replaced
  by the validated new playlist. If the index points at an entry \<open>old\<close> of the old
  snapshot and the new snapshot holds an entry that matches it by id or by file name, the
  poll leaves the engine with the new snapshot and the index at the first such entry: the
  entry at the index matches \<open>old\<close>. The index, the snapshot and the last
  configuration are all that changes: the Master, the Feeder and the file it plays, the
  skip flag and the checkpoint stay as they are.
\<close>

theorem pointer_correction_keeps_entry:
  assumes "isStreaming s" "is_active cfg" "lastConfig s = Some lastCfg"
    and "\<not> criticalChanged cfg lastCfg" "playlist lastCfg \<noteq> playlist cfg"
    and "at_index (currentPlaylist s) (currentIndex s) = Some old"
    and "newPlaylist = fst (cleanPlaylist pf (playlist cfg))"
    and "\<exists>v \<in> set newPlaylist. same_video v old"
  shows "\<exists>k. pollStreamConfig pf now (Some cfg) s =
               Some (s\<lparr>currentPlaylist := newPlaylist, currentIndex := int k,
                       lastConfig := Some cfg\<rparr>) \<and>
             k < length newPlaylist \<and> same_video (newPlaylist ! k) old \<and>
             (\<forall>j < k. \<not> same_video (newPlaylist ! j) old)"
proof -
  let ?P = "\<lambda>v. same_video v old"
  from assms(8) have nf: "findIndex ?P newPlaylist \<noteq> - 1"
    by (simp add: findIndex_none)
  from findIndex_found [OF nf] have f: "0 \<le> findIndex ?P newPlaylist"
    "findIndex ?P newPlaylist < int (length newPlaylist)"
    "same_video (newPlaylist ! nat (findIndex ?P newPlaylist)) old"
    "\<forall>j < nat (findIndex ?P newPlaylist). \<not> same_video (newPlaylist ! j) old"
    by simp_all
  from assms(8) have tr: "item_truthy old" by (auto dest: same_video_truthy)
  have np: "newPlaylist = filter (playable pf) (playlist cfg)"
    using assms(7) by (simp add: cleanPlaylist_valid)
  have pc: "pointer_correction (currentPlaylist s) (currentIndex s) newPlaylist =
              findIndex ?P newPlaylist"
    using assms(6) tr nf by (simp add: pointer_correction_def)
  have "pollStreamConfig pf now (Some cfg) s =
          Some (s\<lparr>currentPlaylist := newPlaylist,
                  currentIndex := int (nat (findIndex ?P newPlaylist)),
                  lastConfig := Some cfg\<rparr>)"
    using poll_hot_reload [OF assms(1-5), of pf now] np pc f(1) by simp
  moreover have "nat (findIndex ?P newPlaylist) < length newPlaylist"
    using f(1,2) by simp
  ultimately show ?thesis using f(3,4) by blast
qed

theorem pointer_correction_keeps_entry_witness:
  "pollStreamConfig demo_platform 10 (Some (demo_config [video_C, video_B, video_A]))
     (demo_streaming [video_A, video_B, video_C] 2) =
   Some ((demo_streaming [video_A, video_B, video_C] 2)
           \<lparr>currentPlaylist := [video_C, video_B, video_A], currentIndex := 0,
            lastConfig := Some (demo_config [video_C, video_B, video_A])\<rparr>) \<and>
   current_entry (demo_streaming [video_A, video_B, video_C] 2) = Some video_C \<and>
   current_entry ((demo_streaming [video_A, video_B, video_C] 2)
           \<lparr>currentPlaylist := [video_C, video_B, video_A], currentIndex := 0,
            lastConfig := Some (demo_config [video_C, video_B, video_A])\<rparr>) = Some video_C"
proof -
  let ?s = "demo_streaming [video_A, video_B, video_C] 2"
  let ?cfg = "demo_config [video_C, video_B, video_A]"
  let ?new = "[video_C, video_B, video_A]"
  have neq: "video_A \<noteq> video_C"
    by (simp add: video_A_def video_C_def)
  have h: "isStreaming ?s" "is_active ?cfg"
    "lastConfig ?s = Some (demo_config [video_A, video_B, video_C])"
    "\<not> criticalChanged ?cfg (demo_config [video_A, video_B, video_C])"
    "playlist (demo_config [video_A, video_B, video_C]) \<noteq> playlist ?cfg"
    "at_index (currentPlaylist ?s) (currentIndex ?s) = Some video_C"
    using neq by (simp_all add: demo_streaming_def demo_config_def criticalChanged_def at_index_def)
  have n: "?new = fst (cleanPlaylist demo_platform (playlist ?cfg))"
    by (simp add: cleanPlaylist_valid demo_config_def demo_playable)
  have sv: "same_video video_C video_C"
    by (simp add: same_video_def video_C_def truthy_def)
  then have m: "\<exists>v \<in> set ?new. same_video v video_C" by simp
  from pointer_correction_keeps_entry [OF h n m, of 10] obtain k where
    k: "pollStreamConfig demo_platform 10 (Some ?cfg) ?s =
          Some (?s\<lparr>currentPlaylist := ?new, currentIndex := int k, lastConfig := Some ?cfg\<rparr>)"
    "\<forall>j < k. \<not> same_video (?new ! j) video_C"
    by blast
  have "k = 0"
  proof (rule ccontr)
    assume "k \<noteq> 0"
    then have "0 < k" by simp
    with k(2) have "\<not> same_video (?new ! 0) video_C" by blast
    with sv show False by simp
  qed
  with k(1) show ?thesis
    by (simp add: current_entry_def at_index_def demo_streaming_def)
qed

text \<open>
  C1 as stated fails, since the correction follows the entry at the index and not the
  entry being played. On \<open>[A, B, C]\<close> with B playing, the reload to \<open>[A, C]\<close> finds
  no match and keeps the index 1, which is now C, while the Feeder plays on B's file. The
  reload to \<open>[A, C, B]\<close> brings B back, and the next one, to \<open>[B, A, C]\<close>, moves the
  index to 2, where C is: old and new snapshot hold the playing B, which is at index 0 of
  the new one. And of several matching entries the first is taken: on \<open>[A, B, A]\<close> with
  the index at 2, the reload to \<open>[A, B, A, C]\<close> moves the index to 0.
\<close>

theorem pointer_correction_counterexample:
  "map_option (\<lambda>s. (current_entry s, currentIndex s, playing_file s))
     (run demo_platform
        [Poll 0 (Some (demo_config [video_A, video_B, video_C])), FeederClose 5 (Some 0),
         Poll 10 (Some (demo_config [video_A, video_C])),
         Poll 20 (Some (demo_config [video_A, video_C, video_B]))]
        (initial_engine None)) =
     Some (Some video_C, 1, Some ''/srv/streamflow/public/videos/b.mp4'') \<and>
   map_option (\<lambda>s. (current_entry s, currentIndex s, playing_file s))
     (run demo_platform
        [Poll 0 (Some (demo_config [video_A, video_B, video_C])), FeederClose 5 (Some 0),
         Poll 10 (Some (demo_config [video_A, video_C])),
         Poll 20 (Some (demo_config [video_A, video_C, video_B])),
         Poll 30 (Some (demo_config [video_B, video_A, video_C]))]
        (initial_engine None)) =
     Some (Some video_C, 2, Some ''/srv/streamflow/public/videos/b.mp4'') \<and>
   getVideoPath demo_platform ([video_B, video_A, video_C] ! 0) =
     Some ''/srv/streamflow/public/videos/b.mp4'' \<and>
   video_B \<in> set [video_A, video_C, video_B] \<and>
   map_option index_and_length
     (run demo_platform
        [Poll 0 (Some (demo_config [video_A, video_B, video_A])), FeederClose 5 (Some 0),
         FeederClose 10 (Some 0)]
        (initial_engine None)) = Some (2, 3) \<and>
   map_option index_and_length
     (run demo_platform
        [Poll 0 (Some (demo_config [video_A, video_B, video_A])), FeederClose 5 (Some 0),
         FeederClose 10 (Some 0), Poll 20 (Some (demo_config [video_A, video_B, video_A, video_C]))]
        (initial_engine None)) = Some (0, 4)"
proof -
  have n: "video_A \<noteq> video_B" "video_A \<noteq> video_C" "video_B \<noteq> video_C"
    by (simp_all add: video_A_def video_B_def video_C_def)
  have a: "filter (playable demo_platform) [video_A, video_B, video_C] =
             [video_A, video_B, video_C]"
    and b: "filter (playable demo_platform) [video_A, video_B, video_A] =
             [video_A, video_B, video_A]"
    by (simp_all add: demo_playable)
  let ?s2 = "cue demo_platform 5 ((demo_streaming [video_A, video_B, video_C] 0)\<lparr>currentIndex := 1\<rparr>)"
  let ?s3 = "?s2\<lparr>currentPlaylist := [video_A, video_C], currentIndex := 1,
                 lastConfig := Some (demo_config [video_A, video_C])\<rparr>"
  let ?s4 = "?s2\<lparr>currentPlaylist := [video_A, video_C, video_B], currentIndex := 1,
                 lastConfig := Some (demo_config [video_A, video_C, video_B])\<rparr>"
  let ?s5 = "?s2\<lparr>currentPlaylist := [video_B, video_A, video_C], currentIndex := 2,
                 lastConfig := Some (demo_config [video_B, video_A, video_C])\<rparr>"
  have e2: "feeder_close demo_platform 5 (Some 0) (demo_streaming [video_A, video_B, video_C] 0) =
              Some ?s2"
    using natural_exit_step [of "demo_streaming [video_A, video_B, video_C] 0" demo_platform 5]
    by (simp add: demo_streaming_def demo_playable)
  have e3: "pollStreamConfig demo_platform 10 (Some (demo_config [video_A, video_C])) ?s2 = Some ?s3"
    using demo_hot_reload [of ?s2 "[video_A, video_B, video_C]" "[video_A, video_C]" 10] n
    by (simp add: demo_streaming_def demo_playable pointer_correction_def at_index_def
        demo_same_video demo_truthy)
  have e4: "pollStreamConfig demo_platform 20 (Some (demo_config [video_A, video_C, video_B])) ?s3 =
              Some ?s4"
    using demo_hot_reload [of ?s3 "[video_A, video_C]" "[video_A, video_C, video_B]" 20] n
    by (simp add: demo_streaming_def demo_playable pointer_correction_def at_index_def
        demo_same_video demo_truthy)
  have e5: "pollStreamConfig demo_platform 30 (Some (demo_config [video_B, video_A, video_C])) ?s4 =
              Some ?s5"
    using demo_hot_reload [of ?s4 "[video_A, video_C, video_B]" "[video_B, video_A, video_C]" 30] n
    by (simp add: demo_streaming_def demo_playable pointer_correction_def at_index_def
        demo_same_video demo_truthy)
  let ?t2 = "cue demo_platform 5 ((demo_streaming [video_A, video_B, video_A] 0)\<lparr>currentIndex := 1\<rparr>)"
  let ?t3 = "cue demo_platform 10 (?t2\<lparr>currentIndex := 2\<rparr>)"
  let ?t4 = "?t3\<lparr>currentPlaylist := [video_A, video_B, video_A, video_C], currentIndex := 0,
                 lastConfig := Some (demo_config [video_A, video_B, video_A, video_C])\<rparr>"
  have f2: "feeder_close demo_platform 5 (Some 0) (demo_streaming [video_A, video_B, video_A] 0) =
              Some ?t2"
    using natural_exit_step [of "demo_streaming [video_A, video_B, video_A] 0" demo_platform 5]
    by (simp add: demo_streaming_def demo_playable)
  have f3: "feeder_close demo_platform 10 (Some 0) ?t2 = Some ?t3"
    using natural_exit_step [of ?t2 demo_platform 10]
    by (simp add: demo_streaming_def demo_playable)
  have f4: "pollStreamConfig demo_platform 20
              (Some (demo_config [video_A, video_B, video_A, video_C])) ?t3 = Some ?t4"
    using demo_hot_reload [of ?t3 "[video_A, video_B, video_A]"
        "[video_A, video_B, video_A, video_C]" 20]
    by (simp add: demo_streaming_def demo_playable pointer_correction_def at_index_def
        demo_same_video demo_truthy)
  have p: "getVideoPath demo_platform ([video_B, video_A, video_C] ! 0) =
     Some ''/srv/streamflow/public/videos/b.mp4''"
    by (simp add: demo_paths)
  from e2 e3 e4 e5 f2 f3 f4 p show ?thesis
    by (simp add: demo_reached [OF a] demo_reached [OF b] index_and_length_def current_entry_def
        at_index_def playing_file_def demo_streaming_def demo_paths)
qed

text \<open>
  C6, as amended. The playlist is \<open>[a, b, c]\<close>, the index is 1 (\<open>b\<close> is playing), and
  a hot reload brings the validated playlist \<open>[a, c]\<close>, in which nothing matches \<open>b\<close>.
  The pointer correction finds no match and leaves the index at 1, which is inside the new
  playlist (it resets the index to 0 only when the index is no longer inside); the Feeder
  is not touched. The next natural advance takes the index to 2, which
  \<open>playNextVideo\<close> resets to 0: the entry played next is \<open>a\<close>, at index 0 of the new
  playlist.
\<close>

theorem removed_entry_keeps_index:
  assumes "isStreaming s" "masterStdin s" "\<not> skipToTarget s"
    and "is_active cfg" "lastConfig s = Some lastCfg" "\<not> criticalChanged cfg lastCfg"
    and "playlist lastCfg \<noteq> playlist cfg"
    and "currentPlaylist s = [a, b, c]" "currentIndex s = 1"
    and "fst (cleanPlaylist pf (playlist cfg)) = [a, c]"
    and "\<not> same_video a b" "\<not> same_video c b"
  shows "\<exists>s1 s2. pollStreamConfig pf now (Some cfg) s = Some s1 \<and>
           currentPlaylist s1 = [a, c] \<and> currentIndex s1 = 1 \<and>
           currentFeederProcess s1 = currentFeederProcess s \<and>
           feeder_close pf now2 (Some 0) s1 = Some s2 \<and>
           currentIndex s2 = 0 \<and> current_entry s2 = Some a \<and>
           currentFeederProcess s2 = Some \<lparr>feederFile = the (getVideoPath pf a), killed = False\<rparr>"
proof -
  have new: "filter (playable pf) (playlist cfg) = [a, c]"
    using assms(10) by (simp add: cleanPlaylist_valid)
  then have "a \<in> set (filter (playable pf) (playlist cfg))" by simp
  then have pa: "playable pf a" by simp
  have at: "at_index [a, b, c] 1 = Some b" by (simp add: at_index_def)
  have pc: "pointer_correction [a, b, c] 1 [a, c] = 1"
    using assms(11,12) by (intro pointer_correction_unmatched [OF at]) simp_all
  let ?s1 = "s\<lparr>currentPlaylist := [a, c], currentIndex := 1, lastConfig := Some cfg\<rparr>"
  have p: "pollStreamConfig pf now (Some cfg) s = Some ?s1"
    using poll_hot_reload [OF assms(1,4,5,6,7), of pf now] new pc assms(8,9) by simp
  have "feeder_close pf now2 (Some 0) ?s1 =
          Some (cue pf now2
            (?s1\<lparr>currentIndex := (currentIndex ?s1 + 1) mod int (length (currentPlaylist ?s1))\<rparr>))"
    using assms(1,2,3) pa by (intro natural_exit_step) simp_all
  then have c: "feeder_close pf now2 (Some 0) ?s1 = Some (cue pf now2 (?s1\<lparr>currentIndex := 0\<rparr>))"
    by simp
  from p c show ?thesis by (simp add: current_entry_def at_index_def)
qed

theorem removed_entry_keeps_index_witness:
  "map_option index_and_length
     (run demo_platform [Poll 10 (Some (demo_config [video_A, video_C]))]
        (demo_streaming [video_A, video_B, video_C] 1)) = Some (1, 2) \<and>
   Option.bind
     (run demo_platform [Poll 10 (Some (demo_config [video_A, video_C])), FeederClose 20 (Some 0)]
        (demo_streaming [video_A, video_B, video_C] 1)) current_entry = Some video_A"
proof -
  let ?s = "demo_streaming [video_A, video_B, video_C] 1"
  let ?cfg = "demo_config [video_A, video_C]"
  have q: "\<not> same_video video_A video_B" "\<not> same_video video_C video_B"
    by (simp_all add: same_video_def video_A_def video_B_def video_C_def)
  have n: "video_B \<noteq> video_C"
    by (simp add: video_B_def video_C_def)
  have h: "isStreaming ?s" "masterStdin ?s" "\<not> skipToTarget ?s" "is_active ?cfg"
    "lastConfig ?s = Some (demo_config [video_A, video_B, video_C])"
    "\<not> criticalChanged ?cfg (demo_config [video_A, video_B, video_C])"
    "playlist (demo_config [video_A, video_B, video_C]) \<noteq> playlist ?cfg"
    "currentPlaylist ?s = [video_A, video_B, video_C]" "currentIndex ?s = 1"
    "fst (cleanPlaylist demo_platform (playlist ?cfg)) = [video_A, video_C]"
    using n
    by (simp_all add: demo_streaming_def demo_config_def criticalChanged_def cleanPlaylist_valid
        demo_playable)
  from removed_entry_keeps_index [OF h q, of 10 20] obtain s1 s2 where
    "pollStreamConfig demo_platform 10 (Some ?cfg) ?s = Some s1"
    "currentPlaylist s1 = [video_A, video_C]" "currentIndex s1 = 1"
    "feeder_close demo_platform 20 (Some 0) s1 = Some s2" "current_entry s2 = Some video_A"
    by blast
  then show ?thesis by (simp add: index_and_length_def)
qed

text \<open>
  C6 as stated fails. The stream starts on \<open>[A, B, C]\<close>, A ends and B plays (index 1);
  the update to \<open>[A, C]\<close> leaves the index at 1, not 0, and the next natural advance
  plays index 0 of the new playlist, which is A and not C.
\<close>

theorem removed_entry_counterexample:
  "map_option index_and_length
     (run demo_platform
        [Poll 0 (Some (demo_config [video_A, video_B, video_C])), FeederClose 5 (Some 0),
         Poll 10 (Some (demo_config [video_A, video_C]))]
        (initial_engine None)) = Some (1, 2) \<and>
   Option.bind
     (run demo_platform
        [Poll 0 (Some (demo_config [video_A, video_B, video_C])), FeederClose 5 (Some 0),
         Poll 10 (Some (demo_config [video_A, video_C])), FeederClose 20 (Some 0)]
        (initial_engine None)) current_entry = Some video_A \<and>
   video_A \<noteq> video_C"
proof -
  have a: "filter (playable demo_platform) [video_A, video_B, video_C] =
             [video_A, video_B, video_C]"
    by (simp add: demo_playable)
  let ?s = "cue demo_platform 5 ((demo_streaming [video_A, video_B, video_C] 0)\<lparr>currentIndex := 1\<rparr>)"
  let ?cfg = "demo_config [video_A, video_C]"
  let ?s1 = "?s\<lparr>currentPlaylist := [video_A, video_C], currentIndex := 1,
                 lastConfig := Some ?cfg\<rparr>"
  have e1: "feeder_close demo_platform 5 (Some 0) (demo_streaming [video_A, video_B, video_C] 0) =
              Some ?s"
    using natural_exit_step [of "demo_streaming [video_A, video_B, video_C] 0" demo_platform 5]
    by (simp add: demo_streaming_def demo_playable)
  have q: "\<forall>w \<in> set [video_A, video_C]. \<not> same_video w video_B"
    by (simp add: same_video_def video_A_def video_B_def video_C_def)
  have n: "video_A \<noteq> video_C" "video_B \<noteq> video_C"
    by (simp_all add: video_A_def video_B_def video_C_def)
  have at: "at_index (currentPlaylist ?s) (currentIndex ?s) = Some video_B"
    by (simp add: demo_streaming_def at_index_def)
  have pc: "pointer_correction (currentPlaylist ?s) (currentIndex ?s) [video_A, video_C] = 1"
    using pointer_correction_unmatched [OF at q] by (simp add: demo_streaming_def)
  have h: "isStreaming ?s" "is_active ?cfg"
    "lastConfig ?s = Some (demo_config [video_A, video_B, video_C])"
    "\<not> criticalChanged ?cfg (demo_config [video_A, video_B, video_C])"
    "playlist (demo_config [video_A, video_B, video_C]) \<noteq> playlist ?cfg"
    using n by (simp_all add: demo_streaming_def demo_config_def criticalChanged_def)
  have v: "filter (playable demo_platform) (playlist ?cfg) = [video_A, video_C]"
    by (simp add: demo_config_def demo_playable)
  have p: "pollStreamConfig demo_platform 10 (Some ?cfg) ?s = Some ?s1"
    using poll_hot_reload [OF h, of demo_platform 10] v pc by simp
  have k: "isStreaming ?s1" "masterStdin ?s1" "\<not> skipToTarget ?s1" "0 \<le> currentIndex ?s1"
    "currentIndex ?s1 < int (length (currentPlaylist ?s1))"
    "playable demo_platform (currentPlaylist ?s1 !
           nat ((currentIndex ?s1 + 1) mod int (length (currentPlaylist ?s1))))"
    by (simp_all add: demo_streaming_def demo_playable)
  have c: "feeder_close demo_platform 20 (Some 0) ?s1 =
             Some (cue demo_platform 20 (?s1\<lparr>currentIndex := 0\<rparr>))"
    using natural_exit_step [OF k, of 20] by simp
  from e1 p c n show ?thesis
    by (simp add: demo_reached [OF a] index_and_length_def current_entry_def at_index_def)
qed

subsection \<open>Critical changes of the configuration\<close>

text \<open>
  C5, as amended. While the engine streams and the polled configuration is active, a
  difference from the last applied configuration in the stream key, the RTMP URL or one
  of the audio overlay columns (enabled, volume, file) makes the poll stop the stream: no
  Master, no Feeder, not streaming, the playlist and the index as they were (no hot
  reload). The next poll with an active configuration that has a URL and a key starts
  again from that configuration: its Master has that configuration's output URL and
  bitrate, its playlist is that configuration's validated playlist.
\<close>

theorem critical_change_restarts:
  assumes "isStreaming s" "is_active cfg" "lastConfig s = Some lastCfg"
    and "stream_key cfg \<noteq> stream_key lastCfg \<or> rtmp_url cfg \<noteq> rtmp_url lastCfg \<or>
         audio_overlay_enabled cfg \<noteq> audio_overlay_enabled lastCfg \<or>
         audio_volume cfg \<noteq> audio_volume lastCfg \<or> audio_file cfg \<noteq> audio_file lastCfg"
  shows "pollStreamConfig pf now (Some cfg) s = Some (stopStream s) \<and>
         \<not> isStreaming (stopStream s) \<and> masterFfmpeg (stopStream s) = None \<and>
         currentFeederProcess (stopStream s) = None \<and>
         currentPlaylist (stopStream s) = currentPlaylist s \<and>
         currentIndex (stopStream s) = currentIndex s \<and>
         (\<forall>cfg' now'. is_active cfg' \<and> truthy (rtmp_url cfg') \<and> truthy (stream_key cfg') \<longrightarrow>
            (\<exists>s'. pollStreamConfig pf now' (Some cfg') (stopStream s) = Some s' \<and>
                  isStreaming s' \<and> masterFfmpeg s' = Some (master_of cfg') \<and>
                  currentPlaylist s' = fst (cleanPlaylist pf (playlist cfg')) \<and>
                  lastConfig s' =
                    Some (cfg'\<lparr>playlist := fst (cleanPlaylist pf (playlist cfg'))\<rparr>)))"
proof -
  from assms(4) have "criticalChanged cfg lastCfg" by (simp add: criticalChanged_def)
  from poll_critical [OF assms(1-3) this]
  have stop: "pollStreamConfig pf now (Some cfg) s = Some (stopStream s)" .
  have again: "\<exists>s'. pollStreamConfig pf now' (Some cfg') (stopStream s) = Some s' \<and>
                  isStreaming s' \<and> masterFfmpeg s' = Some (master_of cfg') \<and>
                  currentPlaylist s' = fst (cleanPlaylist pf (playlist cfg')) \<and>
                  lastConfig s' =
                    Some (cfg'\<lparr>playlist := fst (cleanPlaylist pf (playlist cfg'))\<rparr>)"
    if "is_active cfg' \<and> truthy (rtmp_url cfg') \<and> truthy (stream_key cfg')" for cfg' now'
    using poll_start_streaming [of cfg' "stopStream s" pf now'] that
    by (auto simp: cleanPlaylist_valid)
  from stop again show ?thesis by simp
qed

theorem critical_change_restarts_witness:
  "map_option isStreaming
     (run demo_platform [Poll 10 (Some ((demo_config [video_A, video_B])\<lparr>audio_volume := Some 50\<rparr>))]
        (demo_streaming [video_A, video_B] 0)) = Some False \<and>
   map_option masterFfmpeg
     (run demo_platform
        [Poll 10 (Some ((demo_config [video_A, video_B])\<lparr>audio_volume := Some 50\<rparr>)),
         Poll 20 (Some ((demo_config [video_A, video_B])\<lparr>audio_volume := Some 50\<rparr>))]
        (demo_streaming [video_A, video_B] 0)) =
     Some (Some (master_of ((demo_config [video_A, video_B])\<lparr>audio_volume := Some 50\<rparr>)))"
proof -
  let ?s = "demo_streaming [video_A, video_B] 0"
  let ?cfg = "(demo_config [video_A, video_B])\<lparr>audio_volume := Some 50\<rparr>"
  have h: "isStreaming ?s" "is_active ?cfg" "lastConfig ?s = Some (demo_config [video_A, video_B])"
    by (simp_all add: demo_streaming_def demo_config_def)
  have c: "stream_key ?cfg \<noteq> stream_key (demo_config [video_A, video_B]) \<or>
           rtmp_url ?cfg \<noteq> rtmp_url (demo_config [video_A, video_B]) \<or>
           audio_overlay_enabled ?cfg \<noteq> audio_overlay_enabled (demo_config [video_A, video_B]) \<or>
           audio_volume ?cfg \<noteq> audio_volume (demo_config [video_A, video_B]) \<or>
           audio_file ?cfg \<noteq> audio_file (demo_config [video_A, video_B])"
    by (simp add: demo_config_def)
  have k: "is_active ?cfg \<and> truthy (rtmp_url ?cfg) \<and> truthy (stream_key ?cfg)"
    by (simp add: demo_config_def truthy_def)
  from critical_change_restarts [OF h c, of demo_platform 10]
  have stop: "pollStreamConfig demo_platform 10 (Some ?cfg) ?s = Some (stopStream ?s)"
    and again: "\<forall>cfg' now'. is_active cfg' \<and> truthy (rtmp_url cfg') \<and> truthy (stream_key cfg') \<longrightarrow>
            (\<exists>s'. pollStreamConfig demo_platform now' (Some cfg') (stopStream ?s) = Some s' \<and>
                  isStreaming s' \<and> masterFfmpeg s' = Some (master_of cfg') \<and>
                  currentPlaylist s' = fst (cleanPlaylist demo_platform (playlist cfg')) \<and>
                  lastConfig s' =
                    Some (cfg'\<lparr>playlist := fst (cleanPlaylist demo_platform (playlist cfg'))\<rparr>))"
    by blast+
  from again k obtain s' where
    "pollStreamConfig demo_platform 20 (Some ?cfg) (stopStream ?s) = Some s'"
    "masterFfmpeg s' = Some (master_of ?cfg)"
    by blast
  with stop show ?thesis by simp
qed

text \<open>
  C5 as stated fails for the bitrate, which the comparison does not read: a poll that
  differs from the last configuration in the bitrate alone changes nothing, and the
  Master keeps running with the bitrate it was spawned with.
\<close>

theorem critical_change_counterexample:
  "run demo_platform
     [Poll 0 (Some (demo_config [video_A, video_B])),
      Poll 10 (Some ((demo_config [video_A, video_B])\<lparr>bitrate := Some 4500\<rparr>))]
     (initial_engine None) = Some (demo_streaming [video_A, video_B] 0) \<and>
   masterFfmpeg (demo_streaming [video_A, video_B] 0) =
     Some \<lparr>outputUrl = ''rtmp://a.rtmp.youtube.com/live2/abcd-1234'', vBitrate = 8000\<rparr>"
proof -
  have a: "filter (playable demo_platform) [video_A, video_B] = [video_A, video_B]"
    by (simp add: demo_playable)
  have "pollStreamConfig demo_platform 10
     (Some ((demo_config [video_A, video_B])\<lparr>bitrate := Some 4500\<rparr>))
     (demo_streaming [video_A, video_B] 0) = Some (demo_streaming [video_A, video_B] 0)"
    by (simp add: pollStreamConfig_def runtime_updates_def criticalChanged_def demo_config_def
      demo_streaming_def)
  then show ?thesis
    by (simp add: demo_reached [OF a]) (simp add: demo_streaming_def)
qed

subsection \<open>Errors of the configuration at the start\<close>

text \<open>
  C8, as amended. The engine is not streaming and the polled configuration is active.
  \<^item> Without an RTMP URL or without a stream key the poll spawns nothing: the engine is
    still not streaming, the Master, the Feeder and the timers are as before. The next
    poll with the same configuration leaves the state as it is, and the next poll with an
    active configuration that has both starts the stream.
  \<^item> An empty playlist (after validation) does not block the start: with a URL and a
    key the Master is spawned, the engine is streaming, and \<open>playNextVideo\<close> has set a
    timer of two seconds to look at the playlist again.
\<close>

theorem config_errors_block_start:
  assumes "is_active cfg" "\<not> isStreaming s"
  shows "(\<not> truthy (rtmp_url cfg) \<or> \<not> truthy (stream_key cfg) \<longrightarrow>
           (\<exists>s'. pollStreamConfig pf now (Some cfg) s = Some s' \<and>
                 \<not> isStreaming s' \<and> masterFfmpeg s' = masterFfmpeg s \<and>
                 currentFeederProcess s' = currentFeederProcess s \<and> timers s' = timers s \<and>
                 pollStreamConfig pf now2 (Some cfg) s' = Some s' \<and>
                 (\<forall>cfg2. masterFfmpeg s = None \<and> is_active cfg2 \<and> truthy (rtmp_url cfg2) \<and>
                         truthy (stream_key cfg2) \<longrightarrow>
                    (\<exists>s''. pollStreamConfig pf now2 (Some cfg2) s' = Some s'' \<and>
                           isStreaming s'' \<and> masterFfmpeg s'' = Some (master_of cfg2))))) \<and>
         (masterFfmpeg s = None \<and> truthy (rtmp_url cfg) \<and> truthy (stream_key cfg) \<and>
          fst (cleanPlaylist pf (playlist cfg)) = [] \<longrightarrow>
            pollStreamConfig pf now (Some cfg) s =
              Some (s\<lparr>currentPlaylist := [], currentIndex := 0,
                      masterFfmpeg := Some (master_of cfg), masterStdin := True,
                      isStreaming := True, timers := timers s @ [2000],
                      lastConfig := Some (cfg\<lparr>playlist := []\<rparr>)\<rparr>))"
proof (intro conjI impI)
  assume miss: "\<not> truthy (rtmp_url cfg) \<or> \<not> truthy (stream_key cfg)"
  let ?pl = "filter (playable pf) (playlist cfg)"
  let ?cfg = "cfg\<lparr>playlist := ?pl\<rparr>"
  let ?s' = "s\<lparr>currentPlaylist := ?pl, currentIndex := resume_index (stateFile s) ?pl,
                lastConfig := Some ?cfg\<rparr>"
  from miss have b: "masterFfmpeg s \<noteq> None \<or> \<not> truthy (rtmp_url cfg) \<or> \<not> truthy (stream_key cfg)"
    by blast
  have first: "pollStreamConfig pf now (Some cfg) s = Some ?s'"
    by (rule poll_start_blocked [OF assms b])
  have b': "masterFfmpeg ?s' \<noteq> None \<or> \<not> truthy (rtmp_url cfg) \<or> \<not> truthy (stream_key cfg)"
    using miss by blast
  have "pollStreamConfig pf now2 (Some cfg) ?s' =
          Some (?s'\<lparr>currentPlaylist := ?pl, currentIndex := resume_index (stateFile ?s') ?pl,
                    lastConfig := Some ?cfg\<rparr>)"
    using assms by (intro poll_start_blocked [OF _ _ b']) simp_all
  then have second: "pollStreamConfig pf now2 (Some cfg) ?s' = Some ?s'" by simp
  have third: "\<exists>s''. pollStreamConfig pf now2 (Some cfg2) ?s' = Some s'' \<and>
                 isStreaming s'' \<and> masterFfmpeg s'' = Some (master_of cfg2)"
    if "masterFfmpeg s = None \<and> is_active cfg2 \<and> truthy (rtmp_url cfg2) \<and> truthy (stream_key cfg2)"
    for cfg2
    using poll_start_streaming [of cfg2 ?s' pf now2] that assms(2) by auto
  from first second third
  show "\<exists>s'. pollStreamConfig pf now (Some cfg) s = Some s' \<and>
                 \<not> isStreaming s' \<and> masterFfmpeg s' = masterFfmpeg s \<and>
                 currentFeederProcess s' = currentFeederProcess s \<and> timers s' = timers s \<and>
                 pollStreamConfig pf now2 (Some cfg) s' = Some s' \<and>
                 (\<forall>cfg2. masterFfmpeg s = None \<and> is_active cfg2 \<and> truthy (rtmp_url cfg2) \<and>
                         truthy (stream_key cfg2) \<longrightarrow>
                    (\<exists>s''. pollStreamConfig pf now2 (Some cfg2) s' = Some s'' \<and>
                           isStreaming s'' \<and> masterFfmpeg s'' = Some (master_of cfg2)))"
    using assms(2) by (intro exI [of _ ?s']) simp
next
  assume e: "masterFfmpeg s = None \<and> truthy (rtmp_url cfg) \<and> truthy (stream_key cfg) \<and>
          fst (cleanPlaylist pf (playlist cfg)) = []"
  then have "filter (playable pf) (playlist cfg) = []" by (simp add: cleanPlaylist_valid)
  with e assms show "pollStreamConfig pf now (Some cfg) s =
              Some (s\<lparr>currentPlaylist := [], currentIndex := 0,
                      masterFfmpeg := Some (master_of cfg), masterStdin := True,
                      isStreaming := True, timers := timers s @ [2000],
                      lastConfig := Some (cfg\<lparr>playlist := []\<rparr>)\<rparr>)"
    by (intro poll_start_empty) simp_all
qed

theorem config_errors_block_start_witness:
  "map_option isStreaming
     (run demo_platform [Poll 10 (Some ((demo_config [video_A])\<lparr>stream_key := None\<rparr>))]
        (initial_engine None)) = Some False \<and>
   map_option masterFfmpeg
     (run demo_platform [Poll 10 (Some ((demo_config [video_A])\<lparr>stream_key := None\<rparr>))]
        (initial_engine None)) = Some None \<and>
   map_option isStreaming
     (run demo_platform [Poll 10 (Some ((demo_config [video_A])\<lparr>stream_key := None\<rparr>)),
                         Poll 20 (Some (demo_config [video_A]))]
        (initial_engine None)) = Some True"
proof -
  let ?s = "initial_engine None"
  let ?bad = "(demo_config [video_A])\<lparr>stream_key := None\<rparr>"
  let ?good = "demo_config [video_A]"
  have h: "is_active ?bad" "\<not> isStreaming ?s"
    by (simp_all add: demo_config_def initial_engine_def)
  have m: "\<not> truthy (rtmp_url ?bad) \<or> \<not> truthy (stream_key ?bad)"
    by (simp add: truthy_def)
  have g: "masterFfmpeg ?s = None \<and> is_active ?good \<and> truthy (rtmp_url ?good) \<and>
           truthy (stream_key ?good)"
    by (simp add: demo_config_def initial_engine_def truthy_def)
  from config_errors_block_start [OF h, of demo_platform 10 20] m obtain s' where
    s': "pollStreamConfig demo_platform 10 (Some ?bad) ?s = Some s'" "\<not> isStreaming s'"
    "masterFfmpeg s' = masterFfmpeg ?s"
    "\<forall>cfg2. masterFfmpeg ?s = None \<and> is_active cfg2 \<and> truthy (rtmp_url cfg2) \<and>
            truthy (stream_key cfg2) \<longrightarrow>
       (\<exists>s''. pollStreamConfig demo_platform 20 (Some cfg2) s' = Some s'' \<and>
              isStreaming s'' \<and> masterFfmpeg s'' = Some (master_of cfg2))"
    by blast
  from s'(4) g obtain s'' where
    "pollStreamConfig demo_platform 20 (Some ?good) s' = Some s''" "isStreaming s''"
    by blast
  with s'(1,2,3) show ?thesis by (simp add: initial_engine_def)
qed

text \<open>
  C8 as stated fails for the empty playlist: with a playlist whose only file is missing
  the start goes through, the Master runs and the engine reports streaming.
\<close>

theorem config_errors_counterexample:
  "pollStreamConfig demo_platform 10 (Some (demo_config [video_D])) (initial_engine None) =
     Some \<lparr>masterFfmpeg = Some \<lparr>outputUrl = ''rtmp://a.rtmp.youtube.com/live2/abcd-1234'',
                                 vBitrate = 8000\<rparr>,
           masterStdin = True, currentFeederProcess = None, isStreaming = True,
           lastConfig = Some (demo_config []), currentPlaylist = [], currentIndex = 0,
           skipToTarget = False, stateFile = None, timers = [2000]\<rparr>"
  by (simp add: pollStreamConfig_def adopt_playlist_def cleanPlaylist_def startMasterStream_def
      master_of_def playNextVideo.simps runtime_updates_def criticalChanged_def demo_config_def
      initial_engine_def demo_playable truthy_def Let_def)

subsection \<open>The resume checkpoint\<close>

text \<open>
  C4, as amended. The engine is not streaming and the polled configuration is active;
  \<open>pl\<close> is its validated playlist, of length \<open>L\<close>. The poll adopts \<open>pl\<close> and sets
  the index:
  \<^item> to \<open>(i + 1) mod L\<close> when the checkpoint holds an id and \<open>i\<close> is the first index
    of \<open>pl\<close> whose entry has that id (so to \<open>i\<close> again when \<open>L = 1\<close>, and to 0 when
    \<open>i\<close> is the last index);
  \<^item> to 0 when the checkpoint holds no id or no entry of \<open>pl\<close> has it, and when there
    is no checkpoint.
  When the Master can be started (no Master yet, a URL and a key) and \<open>pl\<close> is not
  empty, the Feeder spawned is that of the entry at this index, and the checkpoint
  written holds this entry's id and the time.

  The checkpoint is written with every entry that begins to play, not only at the start.
  On a streaming engine whose playlist has an entry with its file, the Feeder's close
  handler after a skip (whatever the exit code) or after an exit with code 0, and a
  pending timer that fires (the retry after a failed exit), return with the index
  inside the playlist, the Feeder of the entry at the index spawned, and the checkpoint
  holding this entry's id and the time of the call. The entry has its file: one whose
  file is missing is stepped over before and is never in the checkpoint.
\<close>

theorem resume_after_checkpoint:
  assumes "is_active cfg" "\<not> isStreaming s" "pl = fst (cleanPlaylist pf (playlist cfg))"
  shows "(\<exists>s'. pollStreamConfig pf now (Some cfg) s = Some s' \<and> currentPlaylist s' = pl \<and>
     (\<forall>saved i. stateFile s = Some saved \<and> truthy (lastPlayedVideoId saved) \<and> i < length pl \<and>
          item_id (pl ! i) = lastPlayedVideoId saved \<and>
          (\<forall>j < i. item_id (pl ! j) \<noteq> lastPlayedVideoId saved) \<longrightarrow>
          currentIndex s' = (int i + 1) mod int (length pl) \<and>
          (1 < length pl \<longrightarrow> currentIndex s' \<noteq> int i) \<and>
          (i + 1 < length pl \<longrightarrow> currentIndex s' \<noteq> 0)) \<and>
     (\<forall>saved. stateFile s = Some saved \<and>
          (\<not> truthy (lastPlayedVideoId saved) \<or>
           (\<forall>v \<in> set pl. item_id v \<noteq> lastPlayedVideoId saved)) \<longrightarrow>
          currentIndex s' = 0) \<and>
     (stateFile s = None \<longrightarrow> currentIndex s' = 0) \<and>
     (masterFfmpeg s = None \<and> truthy (rtmp_url cfg) \<and> truthy (stream_key cfg) \<and> pl \<noteq> [] \<longrightarrow>
        isStreaming s' \<and> 0 \<le> currentIndex s' \<and> currentIndex s' < int (length pl) \<and>
        currentFeederProcess s' =
          Some \<lparr>feederFile = the (getVideoPath pf (pl ! nat (currentIndex s'))), killed = False\<rparr> \<and>
        stateFile s' =
          Some \<lparr>lastPlayedVideoId = item_id (pl ! nat (currentIndex s')), timestamp = now\<rparr>)) \<and>
   (\<forall>t code u. isStreaming u \<and> masterStdin u \<and> (skipToTarget u \<or> code = Some 0) \<and>
        (\<exists>v \<in> set (currentPlaylist u). playable pf v) \<longrightarrow>
      (\<exists>u'. feeder_close pf t code u = Some u' \<and> currentPlaylist u' = currentPlaylist u \<and>
            0 \<le> currentIndex u' \<and> currentIndex u' < int (length (currentPlaylist u')) \<and>
            playable pf (currentPlaylist u' ! nat (currentIndex u')) \<and>
            currentFeederProcess u' =
              Some \<lparr>feederFile = the (getVideoPath pf (currentPlaylist u' ! nat (currentIndex u'))),
                    killed = False\<rparr> \<and>
            stateFile u' =
              Some \<lparr>lastPlayedVideoId = item_id (currentPlaylist u' ! nat (currentIndex u')),
                    timestamp = t\<rparr>)) \<and>
   (\<forall>t d u. isStreaming u \<and> masterStdin u \<and> d \<in> set (timers u) \<and>
        (\<exists>v \<in> set (currentPlaylist u). playable pf v) \<longrightarrow>
      (\<exists>u'. timer_fire pf t d u = Some u' \<and> currentPlaylist u' = currentPlaylist u \<and>
            0 \<le> currentIndex u' \<and> currentIndex u' < int (length (currentPlaylist u')) \<and>
            playable pf (currentPlaylist u' ! nat (currentIndex u')) \<and>
            currentFeederProcess u' =
              Some \<lparr>feederFile = the (getVideoPath pf (currentPlaylist u' ! nat (currentIndex u'))),
                    killed = False\<rparr> \<and>
            stateFile u' =
              Some \<lparr>lastPlayedVideoId = item_id (currentPlaylist u' ! nat (currentIndex u')),
                    timestamp = t\<rparr>))"
  (is "?start \<and> ?close \<and> ?timer")
proof -
  have pl: "pl = filter (playable pf) (playlist cfg)"
    using assms(3) by (simp add: cleanPlaylist_valid)
  from poll_start_index [OF assms(1,2), of pf now] obtain s' where
    s': "pollStreamConfig pf now (Some cfg) s = Some s'" "currentPlaylist s' = pl"
    "currentIndex s' = resume_index (stateFile s) pl"
    using pl by blast
  have found: "currentIndex s' = (int i + 1) mod int (length pl) \<and>
          (1 < length pl \<longrightarrow> currentIndex s' \<noteq> int i) \<and>
          (i + 1 < length pl \<longrightarrow> currentIndex s' \<noteq> 0)"
    if f: "stateFile s = Some saved \<and> truthy (lastPlayedVideoId saved) \<and> i < length pl \<and>
          item_id (pl ! i) = lastPlayedVideoId saved \<and>
          (\<forall>j < i. item_id (pl ! j) \<noteq> lastPlayedVideoId saved)" for saved i
  proof -
    from f s'(3) resume_index_found [of saved i pl]
    have e: "currentIndex s' = (int i + 1) mod int (length pl)" by simp
    from f have "0 \<le> int i" "int i < int (length pl)" by simp_all
    from next_index_mod [OF this]
    have "(int i + 1) mod int (length pl) =
            (if int (length pl) \<le> int i + 1 then 0 else int i + 1)" .
    with e show ?thesis by auto
  qed
  have missing: "currentIndex s' = 0"
    if "stateFile s = Some saved \<and>
          (\<not> truthy (lastPlayedVideoId saved) \<or>
           (\<forall>v \<in> set pl. item_id v \<noteq> lastPlayedVideoId saved))" for saved
    using that s'(3) resume_index_missing [of saved pl] by simp
  have nofile: "currentIndex s' = 0" if "stateFile s = None"
    using that s'(3) by (simp add: resume_index_def)
  have started: "isStreaming s' \<and> 0 \<le> currentIndex s' \<and> currentIndex s' < int (length pl) \<and>
        currentFeederProcess s' =
          Some \<lparr>feederFile = the (getVideoPath pf (pl ! nat (currentIndex s'))), killed = False\<rparr> \<and>
        stateFile s' =
          Some \<lparr>lastPlayedVideoId = item_id (pl ! nat (currentIndex s')), timestamp = now\<rparr>"
    if c: "masterFfmpeg s = None \<and> truthy (rtmp_url cfg) \<and> truthy (stream_key cfg) \<and> pl \<noteq> []"
  proof -
    from c have m: "masterFfmpeg s = None" "truthy (rtmp_url cfg)" "truthy (stream_key cfg)"
      and ne: "pl \<noteq> []" by simp_all
    from poll_start_streaming [OF assms(1,2) m, of pf now] s'(1) pl ne
    have "isStreaming s'" "currentPlaylist s' = pl"
      "currentFeederProcess s' =
          Some \<lparr>feederFile = the (getVideoPath pf (currentPlaylist s' ! nat (currentIndex s'))),
                killed = False\<rparr>"
      "stateFile s' =
          Some \<lparr>lastPlayedVideoId = item_id (currentPlaylist s' ! nat (currentIndex s')),
                timestamp = now\<rparr>"
      by auto
    with s'(3) resume_index_range [OF ne, of "stateFile s"] show ?thesis by simp
  qed
  have start: ?start
  proof (intro exI [of _ s'] conjI)
    show "pollStreamConfig pf now (Some cfg) s = Some s'" by (rule s'(1))
    show "currentPlaylist s' = pl" by (rule s'(2))
    show "\<forall>saved i. stateFile s = Some saved \<and> truthy (lastPlayedVideoId saved) \<and> i < length pl \<and>
          item_id (pl ! i) = lastPlayedVideoId saved \<and>
          (\<forall>j < i. item_id (pl ! j) \<noteq> lastPlayedVideoId saved) \<longrightarrow>
          currentIndex s' = (int i + 1) mod int (length pl) \<and>
          (1 < length pl \<longrightarrow> currentIndex s' \<noteq> int i) \<and>
          (i + 1 < length pl \<longrightarrow> currentIndex s' \<noteq> 0)"
      using found by blast
    show "\<forall>saved. stateFile s = Some saved \<and>
          (\<not> truthy (lastPlayedVideoId saved) \<or>
           (\<forall>v \<in> set pl. item_id v \<noteq> lastPlayedVideoId saved)) \<longrightarrow>
          currentIndex s' = 0"
      using missing by blast
    show "stateFile s = None \<longrightarrow> currentIndex s' = 0"
      using nofile by blast
    show "masterFfmpeg s = None \<and> truthy (rtmp_url cfg) \<and> truthy (stream_key cfg) \<and> pl \<noteq> [] \<longrightarrow>
        isStreaming s' \<and> 0 \<le> currentIndex s' \<and> currentIndex s' < int (length pl) \<and>
        currentFeederProcess s' =
          Some \<lparr>feederFile = the (getVideoPath pf (pl ! nat (currentIndex s'))), killed = False\<rparr> \<and>
        stateFile s' =
          Some \<lparr>lastPlayedVideoId = item_id (pl ! nat (currentIndex s')), timestamp = now\<rparr>"
      using started by blast
  qed
  have close: ?close
  proof (intro allI impI)
    fix t :: nat and code :: "int option" and u :: engine
    assume c: "isStreaming u \<and> masterStdin u \<and> (skipToTarget u \<or> code = Some 0) \<and>
        (\<exists>v \<in> set (currentPlaylist u). playable pf v)"
    define u0 where "u0 = (if skipToTarget u then u\<lparr>skipToTarget := False\<rparr>
                           else u\<lparr>currentIndex := currentIndex u + 1\<rparr>)"
    from c have f: "feeder_close pf t code u = playNextVideo pf t u0"
      by (auto simp: feeder_close_def u0_def)
    from c have h: "isStreaming u0" "masterStdin u0" "\<exists>v \<in> set (currentPlaylist u0). playable pf v"
      "currentPlaylist u0 = currentPlaylist u"
      by (simp_all add: u0_def)
    from playNextVideo_returns [OF h(1,2,3), of t] obtain u' where
      u': "playNextVideo pf t u0 = Some u'" by blast
    from h(3) have "currentPlaylist u0 \<noteq> []" by auto
    from playNextVideo_checkpoint [OF u' h(1,2) this] f u' h(4)
    show "\<exists>u'. feeder_close pf t code u = Some u' \<and> currentPlaylist u' = currentPlaylist u \<and>
            0 \<le> currentIndex u' \<and> currentIndex u' < int (length (currentPlaylist u')) \<and>
            playable pf (currentPlaylist u' ! nat (currentIndex u')) \<and>
            currentFeederProcess u' =
              Some \<lparr>feederFile = the (getVideoPath pf (currentPlaylist u' ! nat (currentIndex u'))),
                    killed = False\<rparr> \<and>
            stateFile u' =
              Some \<lparr>lastPlayedVideoId = item_id (currentPlaylist u' ! nat (currentIndex u')),
                    timestamp = t\<rparr>"
      by auto
  qed
  have timer: ?timer
  proof (intro allI impI)
    fix t :: nat and d :: nat and u :: engine
    assume c: "isStreaming u \<and> masterStdin u \<and> d \<in> set (timers u) \<and>
        (\<exists>v \<in> set (currentPlaylist u). playable pf v)"
    define u0 where "u0 = u\<lparr>timers := remove1 d (timers u)\<rparr>"
    from c have f: "timer_fire pf t d u = playNextVideo pf t u0"
      by (simp add: timer_fire_def u0_def)
    from c have h: "isStreaming u0" "masterStdin u0" "\<exists>v \<in> set (currentPlaylist u0). playable pf v"
      "currentPlaylist u0 = currentPlaylist u"
      by (simp_all add: u0_def)
    from playNextVideo_returns [OF h(1,2,3), of t] obtain u' where
      u': "playNextVideo pf t u0 = Some u'" by blast
    from h(3) have "currentPlaylist u0 \<noteq> []" by auto
    from playNextVideo_checkpoint [OF u' h(1,2) this] f u' h(4)
    show "\<exists>u'. timer_fire pf t d u = Some u' \<and> currentPlaylist u' = currentPlaylist u \<and>
            0 \<le> currentIndex u' \<and> currentIndex u' < int (length (currentPlaylist u')) \<and>
            playable pf (currentPlaylist u' ! nat (currentIndex u')) \<and>
            currentFeederProcess u' =
              Some \<lparr>feederFile = the (getVideoPath pf (currentPlaylist u' ! nat (currentIndex u'))),
                    killed = False\<rparr> \<and>
            stateFile u' =
              Some \<lparr>lastPlayedVideoId = item_id (currentPlaylist u' ! nat (currentIndex u')),
                    timestamp = t\<rparr>"
      by auto
  qed
  show ?thesis by (rule conjI [OF start conjI [OF close timer]])
qed

theorem resume_after_checkpoint_witness:
  "map_option index_and_length
     (pollStreamConfig demo_platform 10 (Some (demo_config [video_A, video_B, video_C]))
        (initial_engine (Some \<lparr>lastPlayedVideoId = Some ''b'', timestamp = 5\<rparr>))) = Some (2, 3) \<and>
   map_option stateFile
     (pollStreamConfig demo_platform 10 (Some (demo_config [video_A, video_B, video_C]))
        (initial_engine (Some \<lparr>lastPlayedVideoId = Some ''b'', timestamp = 5\<rparr>))) =
     Some (Some \<lparr>lastPlayedVideoId = Some ''c'', timestamp = 10\<rparr>) \<and>
   map_option stateFile
     (feeder_close demo_platform 20 (Some 0) (demo_streaming [video_A, video_B, video_C] 0)) =
     Some (Some \<lparr>lastPlayedVideoId = Some ''b'', timestamp = 20\<rparr>) \<and>
   map_option stateFile
     (feeder_close demo_platform 25 None
        (snd (control_skip (Some ''previous'') (demo_streaming [video_A, video_B, video_C] 0)))) =
     Some (Some \<lparr>lastPlayedVideoId = Some ''c'', timestamp = 25\<rparr>) \<and>
   map_option stateFile
     (Option.bind
        (feeder_close demo_platform 28 (Some 1) (demo_streaming [video_A, video_B, video_C] 0))
        (timer_fire demo_platform 30 1000)) =
     Some (Some \<lparr>lastPlayedVideoId = Some ''b'', timestamp = 30\<rparr>)"
proof -
  let ?saved = "\<lparr>lastPlayedVideoId = Some ''b'', timestamp = 5\<rparr>"
  let ?s = "initial_engine (Some ?saved)"
  let ?cfg = "demo_config [video_A, video_B, video_C]"
  let ?pl = "[video_A, video_B, video_C]"
  let ?d = "demo_streaming [video_A, video_B, video_C] 0"
  have h: "is_active ?cfg" "\<not> isStreaming ?s" "?pl = fst (cleanPlaylist demo_platform (playlist ?cfg))"
    by (simp_all add: demo_config_def initial_engine_def cleanPlaylist_valid demo_playable)
  note all = resume_after_checkpoint [OF h, of 10]
  note close = all [THEN conjunct2, THEN conjunct1, rule_format]
  note timer = all [THEN conjunct2, THEN conjunct2, rule_format]
  have f: "stateFile ?s = Some ?saved \<and> truthy (lastPlayedVideoId ?saved) \<and> 1 < length ?pl \<and>
          item_id (?pl ! 1) = lastPlayedVideoId ?saved \<and>
          (\<forall>j < 1. item_id (?pl ! j) \<noteq> lastPlayedVideoId ?saved)"
    by (simp add: initial_engine_def truthy_def video_A_def video_B_def)
  have g: "masterFfmpeg ?s = None \<and> truthy (rtmp_url ?cfg) \<and> truthy (stream_key ?cfg) \<and> ?pl \<noteq> []"
    by (simp add: initial_engine_def demo_config_def truthy_def)
  from all [THEN conjunct1] obtain s' where
    s': "pollStreamConfig demo_platform 10 (Some ?cfg) ?s = Some s'" "currentPlaylist s' = ?pl"
    "\<forall>saved i. stateFile ?s = Some saved \<and> truthy (lastPlayedVideoId saved) \<and> i < length ?pl \<and>
          item_id (?pl ! i) = lastPlayedVideoId saved \<and>
          (\<forall>j < i. item_id (?pl ! j) \<noteq> lastPlayedVideoId saved) \<longrightarrow>
          currentIndex s' = (int i + 1) mod int (length ?pl) \<and>
          (1 < length ?pl \<longrightarrow> currentIndex s' \<noteq> int i) \<and>
          (i + 1 < length ?pl \<longrightarrow> currentIndex s' \<noteq> 0)"
    "masterFfmpeg ?s = None \<and> truthy (rtmp_url ?cfg) \<and> truthy (stream_key ?cfg) \<and> ?pl \<noteq> [] \<longrightarrow>
        stateFile s' =
          Some \<lparr>lastPlayedVideoId = item_id (?pl ! nat (currentIndex s')), timestamp = 10\<rparr>"
    by blast
  from s'(3) f have "currentIndex s' = (int 1 + 1) mod int (length ?pl)" by blast
  then have i: "currentIndex s' = 2" by simp
  from s'(4) g have "stateFile s' =
          Some \<lparr>lastPlayedVideoId = item_id (?pl ! nat (currentIndex s')), timestamp = 10\<rparr>"
    by blast
  with i have "stateFile s' = Some \<lparr>lastPlayedVideoId = Some ''c'', timestamp = 10\<rparr>"
    by (simp add: video_C_def eval_nat_numeral)
  with s'(1,2) i have start: "map_option index_and_length
     (pollStreamConfig demo_platform 10 (Some ?cfg) ?s) = Some (2, 3)"
    "map_option stateFile (pollStreamConfig demo_platform 10 (Some ?cfg) ?s) =
       Some (Some \<lparr>lastPlayedVideoId = Some ''c'', timestamp = 10\<rparr>)"
    by (simp_all add: index_and_length_def)
  have ids: "item_id (?pl ! nat 1) = Some ''b''" "item_id (?pl ! nat 2) = Some ''c''"
    by (simp_all add: video_B_def video_C_def eval_nat_numeral)
  have c1: "isStreaming ?d \<and> masterStdin ?d \<and> (skipToTarget ?d \<or> Some 0 = Some (0::int)) \<and>
        (\<exists>v \<in> set (currentPlaylist ?d). playable demo_platform v)"
    by (simp add: demo_streaming_def demo_playable)
  from close [OF c1, of 20] obtain u1 where
    u1: "feeder_close demo_platform 20 (Some 0) ?d = Some u1"
    "stateFile u1 =
       Some \<lparr>lastPlayedVideoId = item_id (currentPlaylist u1 ! nat (currentIndex u1)),
             timestamp = 20\<rparr>"
    by blast
  have "feeder_close demo_platform 20 (Some 0) ?d = Some (cue demo_platform 20 (?d\<lparr>currentIndex := 1\<rparr>))"
    using natural_exit_step [of ?d demo_platform 20]
    by (simp add: demo_streaming_def demo_playable)
  with u1(1) have "u1 = cue demo_platform 20 (?d\<lparr>currentIndex := 1\<rparr>)" by simp
  then have "currentIndex u1 = 1" "currentPlaylist u1 = ?pl"
    by (simp_all add: demo_streaming_def)
  with u1(2) ids have "stateFile u1 = Some \<lparr>lastPlayedVideoId = Some ''b'', timestamp = 20\<rparr>"
    by simp
  with u1(1) have advance: "map_option stateFile (feeder_close demo_platform 20 (Some 0) ?d) =
     Some (Some \<lparr>lastPlayedVideoId = Some ''b'', timestamp = 20\<rparr>)"
    by simp
  let ?k = "snd (control_skip (Some ''previous'') ?d)"
  have k: "?k = ?d\<lparr>currentIndex := 2, skipToTarget := True,
                   currentFeederProcess :=
                     Some \<lparr>feederFile = ''/srv/streamflow/public/videos/a.mp4'', killed = True\<rparr>\<rparr>"
    by (simp add: control_skip_def demo_streaming_def truthy_def demo_paths Let_def)
  have c2: "isStreaming ?k \<and> masterStdin ?k \<and> (skipToTarget ?k \<or> None = Some (0::int)) \<and>
        (\<exists>v \<in> set (currentPlaylist ?k). playable demo_platform v)"
    by (simp add: k) (simp add: demo_streaming_def demo_playable)
  from close [OF c2, of 25] obtain u2 where
    u2: "feeder_close demo_platform 25 None ?k = Some u2"
    "stateFile u2 =
       Some \<lparr>lastPlayedVideoId = item_id (currentPlaylist u2 ! nat (currentIndex u2)),
             timestamp = 25\<rparr>"
    by blast
  have "map_option index_and_length (feeder_close demo_platform 25 None ?k) = Some (2, 3)"
    by (simp add: k) (simp add: feeder_close_def playNextVideo.simps demo_streaming_def
        demo_playable index_and_length_def Let_def)
  with u2(1) have "currentIndex u2 = 2" "length (currentPlaylist u2) = 3"
    by (simp_all add: index_and_length_def)
  moreover from close [OF c2, of 25] u2(1) have "currentPlaylist u2 = currentPlaylist ?k" by auto
  then have "currentPlaylist u2 = ?pl" by (simp add: k) (simp add: demo_streaming_def)
  ultimately have "stateFile u2 = Some \<lparr>lastPlayedVideoId = Some ''c'', timestamp = 25\<rparr>"
    using u2(2) ids by simp
  with u2(1) have skip: "map_option stateFile (feeder_close demo_platform 25 None ?k) =
     Some (Some \<lparr>lastPlayedVideoId = Some ''c'', timestamp = 25\<rparr>)"
    by simp
  let ?r = "?d\<lparr>currentIndex := 1, timers := [1000]\<rparr>"
  have r: "feeder_close demo_platform 28 (Some 1) ?d = Some ?r"
    by (simp add: feeder_close_def demo_streaming_def)
  have c3: "isStreaming ?r \<and> masterStdin ?r \<and> 1000 \<in> set (timers ?r) \<and>
        (\<exists>v \<in> set (currentPlaylist ?r). playable demo_platform v)"
    by (simp add: demo_streaming_def demo_playable)
  from timer [OF c3, of 30] obtain u3 where
    u3: "timer_fire demo_platform 30 1000 ?r = Some u3" "currentPlaylist u3 = currentPlaylist ?r"
    "stateFile u3 =
       Some \<lparr>lastPlayedVideoId = item_id (currentPlaylist u3 ! nat (currentIndex u3)),
             timestamp = 30\<rparr>"
    by blast
  have "map_option currentIndex (timer_fire demo_platform 30 1000 ?r) = Some 1"
    by (simp add: timer_fire_def playNextVideo.simps demo_streaming_def demo_playable Let_def)
  with u3(1) have "currentIndex u3 = 1" by simp
  moreover from u3(2) have "currentPlaylist u3 = ?pl" by (simp add: demo_streaming_def)
  ultimately have "stateFile u3 = Some \<lparr>lastPlayedVideoId = Some ''b'', timestamp = 30\<rparr>"
    using u3(3) ids by simp
  with u3(1) r have retry: "map_option stateFile
     (Option.bind (feeder_close demo_platform 28 (Some 1) ?d) (timer_fire demo_platform 30 1000)) =
     Some (Some \<lparr>lastPlayedVideoId = Some ''b'', timestamp = 30\<rparr>)"
    by simp
  from start advance skip retry show ?thesis by simp
qed

text \<open>
  C4 as stated fails in its words "not at \<open>i\<close> itself and not at 0", and for an id that
  occurs twice: after the last entry of \<open>[A, B]\<close> the start is at 0; on the playlist
  \<open>[A]\<close> it is at 0, which is \<open>i\<close>; on \<open>[A, B, A]\<close> with the checkpoint A, whose
  id is also at index 2, the start is at 1 and not at \<open>(2 + 1) mod 3 = 0\<close>.
\<close>

theorem resume_counterexample:
  "map_option index_and_length
     (pollStreamConfig demo_platform 10 (Some (demo_config [video_A, video_B]))
        (initial_engine (Some \<lparr>lastPlayedVideoId = Some ''b'', timestamp = 5\<rparr>))) = Some (0, 2) \<and>
   map_option index_and_length
     (pollStreamConfig demo_platform 10 (Some (demo_config [video_A]))
        (initial_engine (Some \<lparr>lastPlayedVideoId = Some ''a'', timestamp = 5\<rparr>))) = Some (0, 1) \<and>
   map_option index_and_length
     (pollStreamConfig demo_platform 10 (Some (demo_config [video_A, video_B, video_A]))
        (initial_engine (Some \<lparr>lastPlayedVideoId = Some ''a'', timestamp = 5\<rparr>))) = Some (1, 3) \<and>
   item_id ([video_A, video_B, video_A] ! 2) = Some ''a''"
proof -
  have r2: "resume_index (Some \<lparr>lastPlayedVideoId = Some ''b'', timestamp = 5\<rparr>)
              [video_A, video_B] = 0"
    by (simp add: resume_index_def truthy_def video_A_def video_B_def)
  have r1: "resume_index (Some \<lparr>lastPlayedVideoId = Some ''a'', timestamp = 5\<rparr>) [video_A] = 0"
    by (simp add: resume_index_def truthy_def video_A_def)
  have r3: "resume_index (Some \<lparr>lastPlayedVideoId = Some ''a'', timestamp = 5\<rparr>)
              [video_A, video_B, video_A] = 1"
    by (simp add: resume_index_def truthy_def video_A_def video_B_def)
  have h: "is_active (demo_config pl)" "\<not> isStreaming (initial_engine saved)"
    "masterFfmpeg (initial_engine saved) = None"
    "truthy (rtmp_url (demo_config pl))" "truthy (stream_key (demo_config pl))" for pl saved
    by (simp_all add: demo_config_def initial_engine_def truthy_def)
  have v2: "filter (playable demo_platform) (playlist (demo_config [video_A, video_B])) =
              [video_A, video_B]"
    and v1: "filter (playable demo_platform) (playlist (demo_config [video_A])) = [video_A]"
    and v3: "filter (playable demo_platform) (playlist (demo_config [video_A, video_B, video_A])) =
              [video_A, video_B, video_A]"
    by (simp_all add: demo_config_def demo_playable)
  have "map_option index_and_length
     (pollStreamConfig demo_platform 10 (Some (demo_config [video_A, video_B]))
        (initial_engine (Some \<lparr>lastPlayedVideoId = Some ''b'', timestamp = 5\<rparr>))) = Some (0, 2)"
    using poll_start_streaming [of "demo_config [video_A, video_B]"
        "initial_engine (Some \<lparr>lastPlayedVideoId = Some ''b'', timestamp = 5\<rparr>)"
        demo_platform 10, OF h]
      v2 r2
    by (auto simp: index_and_length_def initial_engine_def)
  moreover
  have "map_option index_and_length
     (pollStreamConfig demo_platform 10 (Some (demo_config [video_A]))
        (initial_engine (Some \<lparr>lastPlayedVideoId = Some ''a'', timestamp = 5\<rparr>))) = Some (0, 1)"
    using poll_start_streaming [of "demo_config [video_A]"
        "initial_engine (Some \<lparr>lastPlayedVideoId = Some ''a'', timestamp = 5\<rparr>)"
        demo_platform 10, OF h]
      v1 r1
    by (auto simp: index_and_length_def initial_engine_def)
  moreover
  have "map_option index_and_length
     (pollStreamConfig demo_platform 10 (Some (demo_config [video_A, video_B, video_A]))
        (initial_engine (Some \<lparr>lastPlayedVideoId = Some ''a'', timestamp = 5\<rparr>))) = Some (1, 3)"
    using poll_start_streaming [of "demo_config [video_A, video_B, video_A]"
        "initial_engine (Some \<lparr>lastPlayedVideoId = Some ''a'', timestamp = 5\<rparr>)"
        demo_platform 10, OF h]
      v3 r3
    by (auto simp: index_and_length_def initial_engine_def)
  moreover
  have "item_id ([video_A, video_B, video_A] ! 2) = Some ''a''"
    by (simp add: video_A_def eval_nat_numeral)
  ultimately show ?thesis by simp
qed

subsection \<open>The index and the playlist\<close>

text \<open>
  C9, as amended.
  \<^item> Whenever \<open>playNextVideo\<close>, called on a streaming engine with a playlist that is not
    empty, returns, the index is inside the playlist, the entry there has its file, and
    the Feeder spawned is that entry's: an index outside the playlist is reset to 0 before
    the entry is selected. It returns whenever some entry of the playlist has its file.
  \<^item> A hot reload made while the index points at an entry leaves the index inside the
    new snapshot, if that is not empty, whether the entry is still there or not.
  \<^item> The adoption of the playlist at the start leaves the index inside the playlist, if
    that is not empty.
\<close>

theorem index_in_range:
  "(isStreaming s \<and> masterStdin s \<and> currentPlaylist s \<noteq> [] \<and> playNextVideo pf now s = Some y \<longrightarrow>
      0 \<le> currentIndex y \<and> currentIndex y < int (length (currentPlaylist y)) \<and>
      currentPlaylist y = currentPlaylist s \<and>
      playable pf (currentPlaylist y ! nat (currentIndex y)) \<and>
      currentFeederProcess y =
        Some \<lparr>feederFile = the (getVideoPath pf (currentPlaylist y ! nat (currentIndex y))),
              killed = False\<rparr>) \<and>
   (isStreaming s \<and> masterStdin s \<and> (\<exists>v \<in> set (currentPlaylist s). playable pf v) \<longrightarrow>
      (\<exists>z. playNextVideo pf now s = Some z)) \<and>
   (isStreaming s \<and> is_active cfg \<and> lastConfig s = Some lastCfg \<and>
    \<not> criticalChanged cfg lastCfg \<and> playlist lastCfg \<noteq> playlist cfg \<and>
    current_entry s = Some old \<and> item_truthy old \<and> fst (cleanPlaylist pf (playlist cfg)) \<noteq> [] \<longrightarrow>
      (\<exists>s'. pollStreamConfig pf now (Some cfg) s = Some s' \<and>
            currentPlaylist s' = fst (cleanPlaylist pf (playlist cfg)) \<and>
            0 \<le> currentIndex s' \<and> currentIndex s' < int (length (currentPlaylist s')))) \<and>
   (is_active cfg \<and> \<not> isStreaming s \<and> fst (cleanPlaylist pf (playlist cfg)) \<noteq> [] \<longrightarrow>
      (\<exists>s'. pollStreamConfig pf now (Some cfg) s = Some s' \<and>
            currentPlaylist s' = fst (cleanPlaylist pf (playlist cfg)) \<and>
            0 \<le> currentIndex s' \<and> currentIndex s' < int (length (currentPlaylist s'))))"
proof (intro conjI impI)
  assume a: "isStreaming s \<and> masterStdin s \<and> currentPlaylist s \<noteq> [] \<and>
             playNextVideo pf now s = Some y"
  then have "playNextVideo pf now s = Some y" by simp
  from playNextVideo_result [OF this] a obtain k where
    k: "0 \<le> k" "k < int (length (currentPlaylist s))" "playable pf (currentPlaylist s ! nat k)"
    "y = cue pf now (s\<lparr>currentIndex := k\<rparr>)"
    by blast
  from k show "0 \<le> currentIndex y" by simp
  from k show "currentIndex y < int (length (currentPlaylist y))" by simp
  from k show "currentPlaylist y = currentPlaylist s" by simp
  from k show "playable pf (currentPlaylist y ! nat (currentIndex y))" by simp
  from k show "currentFeederProcess y =
        Some \<lparr>feederFile = the (getVideoPath pf (currentPlaylist y ! nat (currentIndex y))),
              killed = False\<rparr>" by simp
next
  assume "isStreaming s \<and> masterStdin s \<and> (\<exists>v \<in> set (currentPlaylist s). playable pf v)"
  then show "\<exists>z. playNextVideo pf now s = Some z"
    by (intro playNextVideo_returns) simp_all
next
  assume a: "isStreaming s \<and> is_active cfg \<and> lastConfig s = Some lastCfg \<and>
    \<not> criticalChanged cfg lastCfg \<and> playlist lastCfg \<noteq> playlist cfg \<and>
    current_entry s = Some old \<and> item_truthy old \<and> fst (cleanPlaylist pf (playlist cfg)) \<noteq> []"
  let ?new = "filter (playable pf) (playlist cfg)"
  from a have h: "isStreaming s" "is_active cfg" "lastConfig s = Some lastCfg"
    "\<not> criticalChanged cfg lastCfg" "playlist lastCfg \<noteq> playlist cfg" by simp_all
  from a have at: "at_index (currentPlaylist s) (currentIndex s) = Some old"
    and tr: "item_truthy old" and ne: "?new \<noteq> []"
    by (simp_all add: current_entry_def cleanPlaylist_valid)
  from poll_hot_reload [OF h, of pf now] pointer_correction_range [OF at tr ne]
  show "\<exists>s'. pollStreamConfig pf now (Some cfg) s = Some s' \<and>
            currentPlaylist s' = fst (cleanPlaylist pf (playlist cfg)) \<and>
            0 \<le> currentIndex s' \<and> currentIndex s' < int (length (currentPlaylist s'))"
    by (simp add: cleanPlaylist_valid)
next
  assume a: "is_active cfg \<and> \<not> isStreaming s \<and> fst (cleanPlaylist pf (playlist cfg)) \<noteq> []"
  then have h: "is_active cfg" "\<not> isStreaming s"
    and ne: "filter (playable pf) (playlist cfg) \<noteq> []"
    by (simp_all add: cleanPlaylist_valid)
  from poll_start_index [OF h, of pf now] resume_index_range [OF ne, of "stateFile s"]
  show "\<exists>s'. pollStreamConfig pf now (Some cfg) s = Some s' \<and>
            currentPlaylist s' = fst (cleanPlaylist pf (playlist cfg)) \<and>
            0 \<le> currentIndex s' \<and> currentIndex s' < int (length (currentPlaylist s'))"
    by (auto simp: cleanPlaylist_valid)
qed

theorem index_in_range_witness:
  "map_option index_and_length
     (pollStreamConfig demo_platform 10 (Some (demo_config [video_A, video_B]))
        (demo_streaming [video_A, video_B, video_C] 2)) = Some (0, 2)"
proof -
  let ?s = "demo_streaming [video_A, video_B, video_C] 2"
  let ?cfg = "demo_config [video_A, video_B]"
  have v: "fst (cleanPlaylist demo_platform (playlist ?cfg)) = [video_A, video_B]"
    by (simp add: cleanPlaylist_valid demo_config_def demo_playable)
  have a: "isStreaming ?s \<and> is_active ?cfg \<and>
    lastConfig ?s = Some (demo_config [video_A, video_B, video_C]) \<and>
    \<not> criticalChanged ?cfg (demo_config [video_A, video_B, video_C]) \<and>
    playlist (demo_config [video_A, video_B, video_C]) \<noteq> playlist ?cfg \<and>
    current_entry ?s = Some video_C \<and> item_truthy video_C \<and>
    fst (cleanPlaylist demo_platform (playlist ?cfg)) \<noteq> []"
    using v
    by (simp add: demo_streaming_def demo_config_def criticalChanged_def current_entry_def
        at_index_def item_truthy_def video_C_def)
  from index_in_range [of ?s demo_platform 10 ?s ?cfg "demo_config [video_A, video_B, video_C]" video_C]
    a v obtain s' where
    s': "pollStreamConfig demo_platform 10 (Some ?cfg) ?s = Some s'"
    "currentPlaylist s' = [video_A, video_B]"
    "0 \<le> currentIndex s'" "currentIndex s' < int (length (currentPlaylist s'))"
    by auto
  have "pollStreamConfig demo_platform 10 (Some ?cfg) ?s =
          Some (?s\<lparr>currentPlaylist := filter (playable demo_platform) (playlist ?cfg),
                   currentIndex := pointer_correction (currentPlaylist ?s) (currentIndex ?s)
                                     (filter (playable demo_platform) (playlist ?cfg)),
                   lastConfig := Some ?cfg\<rparr>)"
    using a by (intro poll_hot_reload [where lastCfg = "demo_config [video_A, video_B, video_C]"])
      blast+
  with s'(1) have "currentIndex s' =
      pointer_correction (currentPlaylist ?s) (currentIndex ?s)
        (filter (playable demo_platform) (playlist ?cfg))"
    by auto
  also have "\<dots> = 0"
    by (simp add: pointer_correction_def demo_streaming_def demo_config_def demo_playable
        at_index_def item_truthy_def same_video_def truthy_def video_A_def video_B_def video_C_def)
  finally show ?thesis using s'(1,2) by (simp add: index_and_length_def)
qed

text \<open>
  C9 as stated fails after a playlist replacement that finds the index outside the old
  playlist. A Feeder that exits with code 1 on the last entry leaves the index at the
  length for one second; a hot reload in that second reads no entry at the index and
  leaves it alone: the playlist has one entry and the index is 2, until the timer's
  \<open>playNextVideo\<close> resets it.
\<close>

theorem index_in_range_counterexample:
  "map_option index_and_length
     (run demo_platform
        [Poll 0 (Some (demo_config [video_A, video_B])),
         FeederClose 10 (Some 0),
         FeederClose 20 (Some 1),
         Poll 30 (Some (demo_config [video_A]))]
        (initial_engine None)) = Some (2, 1)"
proof -
  let ?c2 = "demo_config [video_A, video_B]"
  let ?c1 = "demo_config [video_A]"
  let ?s0 = "initial_engine None"
  have n: "video_A \<noteq> video_B" by (simp add: video_A_def video_B_def)
  have v2: "filter (playable demo_platform) (playlist ?c2) = [video_A, video_B]"
    and v1: "filter (playable demo_platform) (playlist ?c1) = [video_A]"
    by (simp_all add: demo_config_def demo_playable)
  have h: "is_active ?c2" "\<not> isStreaming ?s0" "masterFfmpeg ?s0 = None"
    "truthy (rtmp_url ?c2)" "truthy (stream_key ?c2)"
    by (simp_all add: demo_config_def initial_engine_def truthy_def)
  from poll_start_streaming [OF h, of demo_platform 0] v2 obtain s1 where
    s1: "pollStreamConfig demo_platform 0 (Some ?c2) ?s0 = Some s1" "isStreaming s1"
    "masterStdin s1" "currentPlaylist s1 = [video_A, video_B]" "currentIndex s1 = 0"
    "lastConfig s1 = Some ?c2"
    by (auto simp: resume_index_def initial_engine_def demo_config_def)
  have sk: "\<not> skipToTarget s1"
    using s1(1) poll_start_cue [OF h, of demo_platform 0] v2
    by (auto simp: initial_engine_def)
  have "feeder_close demo_platform 10 (Some 0) s1 =
          Some (cue demo_platform 10
            (s1\<lparr>currentIndex := (currentIndex s1 + 1) mod int (length (currentPlaylist s1))\<rparr>))"
    using s1 sk by (intro natural_exit_step) (simp_all add: demo_playable)
  then have e2: "feeder_close demo_platform 10 (Some 0) s1 =
          Some (cue demo_platform 10 (s1\<lparr>currentIndex := 1\<rparr>))"
    using s1 by simp
  let ?s2 = "cue demo_platform 10 (s1\<lparr>currentIndex := 1\<rparr>)"
  let ?s3 = "?s2\<lparr>currentIndex := 2, timers := timers ?s2 @ [1000]\<rparr>"
  have e3: "feeder_close demo_platform 20 (Some 1) ?s2 = Some ?s3"
    using sk by (simp add: feeder_close_def)
  have "pollStreamConfig demo_platform 30 (Some ?c1) ?s3 =
          Some (?s3\<lparr>currentPlaylist := filter (playable demo_platform) (playlist ?c1),
                    currentIndex := pointer_correction (currentPlaylist ?s3) (currentIndex ?s3)
                                      (filter (playable demo_platform) (playlist ?c1)),
                    lastConfig := Some ?c1\<rparr>)"
    using s1 n by (intro poll_hot_reload [where lastCfg = ?c2])
      (simp_all add: demo_config_def criticalChanged_def)
  moreover have "pointer_correction (currentPlaylist ?s3) (currentIndex ?s3) [video_A] = 2"
    using s1 by (simp add: pointer_correction_def at_index_def)
  ultimately have e4: "map_option index_and_length (pollStreamConfig demo_platform 30 (Some ?c1) ?s3) =
      Some (2, 1)"
    using v1 by (simp add: index_and_length_def)
  from s1(1) e2 e3 e4 show ?thesis by auto
qed

subsection \<open>The resolver\<close>

lemma replaceFirst_prefix:
  "startsWith p pat \<Longrightarrow> replaceFirst pat rep p = rep @ drop (length pat) p"
  by (cases p) (auto simp: startsWith_def)

text \<open>
  C7, as amended. \<open>getVideoPath\<close> resolves an entry by the first form that is present,
  in the order string, \<^verbatim>\<open>filename\<close>, \<^verbatim>\<open>url\<close>, \<^verbatim>\<open>path\<close>:
  \<^item> a string is its own path;
  \<^item> a present \<^verbatim>\<open>filename\<close> is joined to the video directory, so two entries with
    the same file name resolve alike whatever their \<^verbatim>\<open>url\<close> and \<^verbatim>\<open>path\<close> say;
  \<^item> otherwise a present \<^verbatim>\<open>url\<close> decides: null when the URL does not parse; the
    rest of the path joined to the video directory when the path starts with
    \<^verbatim>\<open>/videos/\<close>; the path joined to the public directory when it starts with
    another slash; the path itself otherwise;
  \<^item> otherwise a present \<^verbatim>\<open>path\<close> is the result;
  \<^item> an entry with none of the three (one that carries an id only) resolves to null.
\<close>

theorem getVideoPath_precedence:
  "getVideoPath pf (Str str) = Some str \<and>
   (truthy (filename v) \<longrightarrow>
      getVideoPath pf (Obj v) = Some (path_join pf [VIDEOS_DIR pf, the (filename v)]) \<and>
      (\<forall>w. filename w = filename v \<longrightarrow> getVideoPath pf (Obj w) = getVideoPath pf (Obj v))) \<and>
   (\<not> truthy (filename v) \<and> truthy (url v) \<longrightarrow>
      getVideoPath pf (Obj v) =
        (case extractedPath pf (the (url v)) of
           None \<Rightarrow> None
         | Some p \<Rightarrow>
             if startsWith p ''/videos/'' then Some (path_join pf [VIDEOS_DIR pf, drop 8 p])
             else if startsWith p ''/'' then Some (path_join pf [dirname pf, ''public'', p])
             else Some p)) \<and>
   (\<not> truthy (filename v) \<and> \<not> truthy (url v) \<and> truthy (path v) \<longrightarrow>
      getVideoPath pf (Obj v) = Some (the (path v))) \<and>
   (\<not> truthy (filename v) \<and> \<not> truthy (url v) \<and> \<not> truthy (path v) \<longrightarrow>
      getVideoPath pf (Obj v) = None)"
proof -
  have str: "getVideoPath pf (Str str) = Some str"
    by (simp add: getVideoPath_def)
  have byfile: "getVideoPath pf (Obj w) = Some (path_join pf [VIDEOS_DIR pf, the (filename w)])"
    if "truthy (filename w)" for w
    using that by (simp add: getVideoPath_def)
  have same: "getVideoPath pf (Obj w) = getVideoPath pf (Obj v)"
    if "truthy (filename v)" "filename w = filename v" for w
    using that byfile [of w] byfile [of v] by simp
  have byurl: "getVideoPath pf (Obj v) =
        (case extractedPath pf (the (url v)) of
           None \<Rightarrow> None
         | Some p \<Rightarrow>
             if startsWith p ''/videos/'' then Some (path_join pf [VIDEOS_DIR pf, drop 8 p])
             else if startsWith p ''/'' then Some (path_join pf [dirname pf, ''public'', p])
             else Some p)"
    if "\<not> truthy (filename v)" "truthy (url v)"
    using that
    by (simp add: getVideoPath_def replaceFirst_prefix eval_nat_numeral split: option.splits)
  have bypath: "getVideoPath pf (Obj v) = Some (the (path v))"
    if "\<not> truthy (filename v)" "\<not> truthy (url v)" "truthy (path v)"
    using that by (simp add: getVideoPath_def)
  have none: "getVideoPath pf (Obj v) = None"
    if "\<not> truthy (filename v)" "\<not> truthy (url v)" "\<not> truthy (path v)"
    using that by (simp add: getVideoPath_def)
  from str byfile same byurl bypath none show ?thesis by blast
qed

text \<open>
  An entry whose file name and URL disagree resolves by the file name, and an entry that
  carries an id only resolves to null.
\<close>

theorem getVideoPath_precedence_witness:
  "getVideoPath demo_platform
     (Obj \<lparr>vid = Some ''a'', filename = Some ''a.mp4'', url = Some ''/videos/other.mp4'',
           path = Some ''/tmp/else.mp4'', title = None, rest = []\<rparr>) =
     Some ''/srv/streamflow/public/videos/a.mp4'' \<and>
   getVideoPath demo_platform
     (Obj \<lparr>vid = Some ''a'', filename = None, url = Some ''http://media.example.org/videos/a.mp4'',
           path = Some ''/tmp/else.mp4'', title = None, rest = []\<rparr>) =
     Some ''/srv/streamflow/public/videos/a.mp4'' \<and>
   getVideoPath demo_platform
     (Obj \<lparr>vid = Some ''a'', filename = None, url = None, path = None, title = Some ''A'', rest = []\<rparr>) = None"
proof -
  let ?v1 = "\<lparr>vid = Some ''a'', filename = Some ''a.mp4'', url = Some ''/videos/other.mp4'',
           path = Some ''/tmp/else.mp4'', title = None, rest = []\<rparr>"
  let ?v2 = "\<lparr>vid = Some ''a'', filename = None,
           url = Some ''http://media.example.org/videos/a.mp4'',
           path = Some ''/tmp/else.mp4'', title = None, rest = []\<rparr>"
  let ?v3 = "\<lparr>vid = Some ''a'', filename = None, url = None, path = None, title = Some ''A'', rest = []\<rparr>"
  have dir: "VIDEOS_DIR demo_platform = ''/srv/streamflow/public/videos''"
    by (simp add: VIDEOS_DIR_def demo_platform_def posix_join_def posix_normalize_def)
  have j: "path_join demo_platform [''/srv/streamflow/public/videos'', ''a.mp4''] =
             ''/srv/streamflow/public/videos/a.mp4''"
    by (simp add: demo_platform_def posix_join_def posix_normalize_def)
  have e: "extractedPath demo_platform ''http://media.example.org/videos/a.mp4'' =
             Some ''/videos/a.mp4''"
    by (simp add: extractedPath_def startsWith_def demo_platform_def)
  have "getVideoPath demo_platform (Obj ?v1) = Some ''/srv/streamflow/public/videos/a.mp4''"
    using getVideoPath_precedence [of demo_platform "[]" ?v1] dir j by (simp add: truthy_def)
  moreover
  have "getVideoPath demo_platform (Obj ?v2) = Some ''/srv/streamflow/public/videos/a.mp4''"
    using getVideoPath_precedence [of demo_platform "[]" ?v2] dir j e
    by (simp add: truthy_def startsWith_def)
  moreover
  have "getVideoPath demo_platform (Obj ?v3) = None"
    using getVideoPath_precedence [of demo_platform "[]" ?v3] by (simp add: truthy_def)
  ultimately show ?thesis by simp
qed

text \<open>
  C7 as stated fails for the \<^verbatim>\<open>url\<close> form: a URL whose path does not start with
  \<^verbatim>\<open>/videos/\<close> is not joined to the video directory. An absolute path lands in the
  public directory, a relative one is returned as it is.
\<close>

theorem getVideoPath_url_counterexample:
  "getVideoPath demo_platform
     (Obj \<lparr>vid = Some ''t'', filename = None, url = Some ''/thumbnails/clip.mp4'', path = None,
           title = None, rest = []\<rparr>) = Some ''/srv/streamflow/public/thumbnails/clip.mp4'' \<and>
   url_rule_as_stated demo_platform ''/thumbnails/clip.mp4'' =
     Some ''/srv/streamflow/public/videos/thumbnails/clip.mp4'' \<and>
   getVideoPath demo_platform
     (Obj \<lparr>vid = Some ''t'', filename = None, url = Some ''clip.mp4'', path = None,
           title = None, rest = []\<rparr>) = Some ''clip.mp4'' \<and>
   url_rule_as_stated demo_platform ''clip.mp4'' =
     Some ''/srv/streamflow/public/videos/clip.mp4''"
  by (simp add: getVideoPath_def url_rule_as_stated_def extractedPath_def truthy_def
      startsWith_def VIDEOS_DIR_def demo_platform_def posix_join_def posix_normalize_def)

end
